theory Spec2Isabelle
  imports Complex_Main "HOL-Library.Multiset"
begin

section \<open>Values, errors and the mutable environment of openmoc.plotter\<close>

text \<open>
  NumPy float64 values as they occur in the plotted surface: a finite value, the two
  infinities and NaN. Finite arithmetic is exact (over the reals): rounding and the sign
  of zero are not part of the model.
\<close>

datatype flt = Fin real | PInf | NInf | NaN

text \<open>
  A Python number as the type checks \<open>is_integer\<close> and \<open>is_float\<close> see it: an integer,
  a float, or a number of any other type (an \<open>np.int16\<close>, for example), which compares
  by its value like the others and which neither check accepts.
\<close>

datatype number = IntV int | FloatV real | OtherV real

fun num_val :: "number \<Rightarrow> real" where
  "num_val (IntV k) = real_of_int k"
| "num_val (FloatV r) = r"
| "num_val (OtherV r) = r"

text \<open>
  Modelled from the spec: \<open>is_integer\<close> and \<open>is_float\<close> of openmoc.process (the module is
  not part of the sources at hand) are the type checks applied to numeric parameters.
\<close>

fun is_integer :: "number \<Rightarrow> bool" where
  "is_integer (IntV k) = True"
| "is_integer (FloatV r) = False"
| "is_integer (OtherV r) = False"

fun is_float :: "number \<Rightarrow> bool" where
  "is_float (IntV k) = False"
| "is_float (FloatV r) = True"
| "is_float (OtherV r) = False"

text \<open>
  Modelled from the spec: \<open>py_printf('ERROR', ...)\<close> of openmoc.log (not part of the
  sources at hand) reports a user-visible error and ends the call (validation is
  fail-fast). Each call site of the plotter is one constructor below, carrying the
  offending values of its message. The remaining constructors are the Python exceptions
  raised by NumPy operations.
\<close>

datatype error =
    NotGeometry
  | NotSolver
  | NotIRAMSolver
  | NotNdarray
  | LengthMismatch int int
  | GridsizeNotInteger number
  | GridsizeNegative int
  | ZcoordNotFloat number
  | ZcoordOutside real real
  | BoundsNotMonotonic
  | BoundsWrongCount int
  | BoundNotNumber
  | BoundNegative real
  | BoundsNotSequence
  | EigenmodeNotPositive int
  | EigenmodeTooLarge int int
  | IndexError
  | ValueError

text \<open>
  The name of a saved plot. The z-coordinate is kept as a number, since the text Python
  prints for a float is not modelled.
\<close>

datatype fname =
    PlainName string
  | MaterialsZ real
  | FsrFluxGroupZ int real

text \<open>
  The state that outlives a call: the module-level variable \<open>subdirectory\<close>, the
  directories and files on disk, the state of NumPy's global random number generator,
  and a log of the points handed to the geometry's containment query. Two values of the
  openmoc module that the plotter only reads are kept beside them: the constant
  \<open>openmoc.TINY_MOVE\<close> and the result of \<open>openmoc.get_output_directory()\<close>.
\<close>

record world =
  TINY_MOVE :: real
  output_directory :: string
  subdirectory :: string
  dirs :: "string list"
  saved :: "(string \<times> fname) list"
  rng_state :: nat
  queries :: "(real \<times> real \<times> real) list"

text \<open>
  NumPy's generator, taken as a parameter: \<open>numpy.random.seed(s)\<close> yields a generator
  state, \<open>numpy.random.shuffle\<close> reorders a list and advances the state.
\<close>

record rng_ops =
  rng_seed :: "int \<Rightarrow> nat"
  rng_shuffle :: "nat \<Rightarrow> int list \<Rightarrow> int list \<times> nat"

section \<open>NumPy array primitives\<close>

definition arange :: "int \<Rightarrow> int list" where
  "arange n = map int [0..<nat n]"

text \<open>
  The position an integer index names in an array of \<open>len\<close> entries: an index below zero
  counts from the end, an index outside \<open>[-len, len)\<close> names nothing.
\<close>

definition wrap_index :: "nat \<Rightarrow> int \<Rightarrow> nat option" where
  "wrap_index len i =
     (if 0 \<le> i \<and> i < int len then Some (nat i)
      else if i < 0 \<and> - int len \<le> i then Some (nat (int len + i))
      else None)"

text \<open>\<open>a[i]\<close> with one integer; IndexError when the index names nothing.\<close>

definition np_get :: "'a list \<Rightarrow> int \<Rightarrow> error + 'a" where
  "np_get xs i =
     (case wrap_index (length xs) i of None \<Rightarrow> Inl IndexError | Some k \<Rightarrow> Inr (xs ! k))"

text \<open>\<open>a.take(indices)\<close> in its default mode: every index is read as \<open>np_get\<close> reads it.\<close>

fun np_take :: "'a list \<Rightarrow> int list \<Rightarrow> error + 'a list" where
  "np_take xs [] = Inr []"
| "np_take xs (i # is) =
     (case np_get xs i of
        Inl e \<Rightarrow> Inl e
      | Inr v \<Rightarrow> (case np_take xs is of Inl e \<Rightarrow> Inl e | Inr vs \<Rightarrow> Inr (v # vs)))"

text \<open>\<open>a[idxs] = vals\<close> with an index array: the shapes must agree.\<close>

fun put_loop :: "'a list \<Rightarrow> (int \<times> 'a) list \<Rightarrow> error + 'a list" where
  "put_loop a [] = Inr a"
| "put_loop a ((i, v) # ps) =
     (case wrap_index (length a) i of
        None \<Rightarrow> Inl IndexError
      | Some k \<Rightarrow> put_loop (a[k := v]) ps)"

definition np_put :: "'a list \<Rightarrow> int list \<Rightarrow> 'a list \<Rightarrow> error + 'a list" where
  "np_put a idxs vals =
     (if length vals \<noteq> length idxs then Inl ValueError else put_loop a (zip idxs vals))"

section \<open>The identity colorizer\<close>

text \<open>
  \<open>_colorize(data, num_colors, seed=1)\<close>. The table \<open>ids_to_colors\<close> is built first; the
  generator is seeded by the call \<open>numpy.random.seed(1)\<close>.
\<close>

definition color_table :: "rng_ops \<Rightarrow> int \<Rightarrow> int \<Rightarrow> (error + int list) \<times> nat" where
  "color_table ops num_colors seed =
     (let all_ids = arange num_colors;
          id_colors = arange num_colors;
          (id_colors, r) = rng_shuffle ops (rng_seed ops 1) id_colors;
          ids_to_colors = arange num_colors
      in (np_put ids_to_colors all_ids id_colors, r))"

definition colorize :: "rng_ops \<Rightarrow> int list \<Rightarrow> int \<Rightarrow> int \<Rightarrow> world \<Rightarrow> (error + int list) \<times> world" where
  "colorize ops data num_colors seed w =
     (case color_table ops num_colors seed of
        (Inl e, r) \<Rightarrow> (Inl e, w\<lparr>rng_state := r\<rparr>)
      | (Inr ids_to_colors, r) \<Rightarrow> (np_take ids_to_colors data, w\<lparr>rng_state := r\<rparr>))"

text \<open>
  A small generator for concrete runs: the state is a counter, seeding sets it to the
  magnitude of the seed, shuffling rotates the list by the counter and steps it.
\<close>

definition demo_rng :: rng_ops where
  "demo_rng = \<lparr>rng_seed = (\<lambda>s. nat \<bar>s\<bar>), rng_shuffle = (\<lambda>r xs. (rotate r xs, Suc r))\<rparr>"

definition demo_world :: world where
  "demo_world = \<lparr>TINY_MOVE = 0, output_directory = ''out'', subdirectory = ''/plots/'', dirs = [],
     saved = [], rng_state = 0, queries = []\<rparr>"

section \<open>Float operations of the colorization stage\<close>

fun fl_less :: "flt \<Rightarrow> flt \<Rightarrow> bool" where
  "fl_less NaN b = False"
| "fl_less a NaN = False"
| "fl_less (Fin a) (Fin b) = (a < b)"
| "fl_less (Fin a) PInf = True"
| "fl_less (Fin a) NInf = False"
| "fl_less PInf b = False"
| "fl_less NInf NInf = False"
| "fl_less NInf b = True"

text \<open>The maximum of two values as \<open>np.max\<close> accumulates it: NaN wins.\<close>

definition fl_max :: "flt \<Rightarrow> flt \<Rightarrow> flt" where
  "fl_max a b = (if a = NaN \<or> b = NaN then NaN else if fl_less a b then b else a)"

text \<open>\<open>np.max\<close> of a flattened array; an empty array raises ValueError.\<close>

fun np_max :: "flt list \<Rightarrow> error + flt" where
  "np_max [] = Inl ValueError"
| "np_max (x # xs) = Inr (fold (\<lambda>v m. fl_max m v) xs x)"

text \<open>Float division with NumPy's results for zero and infinite operands.\<close>

fun fl_div :: "flt \<Rightarrow> flt \<Rightarrow> flt" where
  "fl_div NaN b = NaN"
| "fl_div a NaN = NaN"
| "fl_div (Fin a) (Fin b) =
     (if b \<noteq> 0 then Fin (a / b) else if 0 < a then PInf else if a < 0 then NInf else NaN)"
| "fl_div (Fin a) PInf = Fin 0"
| "fl_div (Fin a) NInf = Fin 0"
| "fl_div PInf (Fin b) = (if 0 \<le> b then PInf else NInf)"
| "fl_div NInf (Fin b) = (if 0 \<le> b then NInf else PInf)"
| "fl_div PInf PInf = NaN"
| "fl_div PInf NInf = NaN"
| "fl_div NInf PInf = NaN"
| "fl_div NInf NInf = NaN"

fun fl_abs :: "flt \<Rightarrow> flt" where
  "fl_abs (Fin a) = Fin \<bar>a\<bar>"
| "fl_abs PInf = PInf"
| "fl_abs NInf = PInf"
| "fl_abs NaN = NaN"

section \<open>The geometry and the pixel grid\<close>

text \<open>
  The result of \<open>geometry.getFSRId(point)\<close> as the plotter tests it: NaN, or a region id.
\<close>

datatype fsr_id = FsrNaN | FsrId int

text \<open>
  The Geometry object, an external collaborator, as the answers of the accessors the
  plotter calls. \<open>is_Geometry\<close> is the test \<open>'Geometry' in str(type(geometry))\<close>;
  \<open>getFSRId\<close> is the lookup made for \<open>LocalCoords(x, y, z)\<close> by
  \<open>findCellContainingCoords\<close> followed by \<open>getFSRId\<close>; \<open>fsr_material\<close> is
  \<open>findCellContainingFSR(fsr_id).getFillMaterial().getId()\<close>; \<open>getAllMaterials\<close> lists
  the keys of the material map in iteration order; \<open>fsr_point0_z\<close> is
  \<open>getFSRPoint(0).getZ()\<close>.
\<close>

record geometry =
  is_Geometry :: bool
  getNumFSRs :: int
  getNumEnergyGroups :: int
  getMinX :: real
  getMaxX :: real
  getMinY :: real
  getMaxY :: real
  getMinZ :: real
  getMaxZ :: real
  getFSRId :: "real \<Rightarrow> real \<Rightarrow> real \<Rightarrow> fsr_id"
  fsr_material :: "int \<Rightarrow> int"
  getAllMaterials :: "int list"
  fsr_point0_z :: real

definition linspace :: "real \<Rightarrow> real \<Rightarrow> nat \<Rightarrow> real list" where
  "linspace a b n =
     (if n = 1 then [a] else map (\<lambda>k. a + real k * ((b - a) / real (n - 1))) [0..<n])"

record pixel_coords =
  coords_x :: "real list"
  coords_y :: "real list"
  coords_bounds :: "real \<times> real \<times> real \<times> real"

definition get_pixel_coords ::
  "real \<Rightarrow> geometry \<Rightarrow> nat \<Rightarrow> (real \<times> real) option \<Rightarrow> (real \<times> real) option \<Rightarrow> pixel_coords" where
  "get_pixel_coords tiny g gridsize xlim ylim =
     (let b0 = getMinX g + tiny; b1 = getMaxX g - tiny;
          b2 = getMinY g + tiny; b3 = getMaxY g - tiny;
          (b0, b1) = (case xlim of None \<Rightarrow> (b0, b1) | Some l \<Rightarrow> (fst l, snd l));
          (b2, b3) = (case ylim of None \<Rightarrow> (b2, b3) | Some l \<Rightarrow> (fst l, snd l));
          xcoords = linspace b0 b1 gridsize;
          ycoords = linspace b2 b3 gridsize
      in \<lparr>coords_x = xcoords, coords_y = ycoords, coords_bounds = (b0, b1, b2, b3)\<rparr>)"

definition check_zcoord :: "geometry \<Rightarrow> number \<Rightarrow> error + unit" where
  "check_zcoord g zcoord =
     (if \<not> is_float zcoord then Inl (ZcoordNotFloat zcoord)
      else if num_val zcoord < getMinZ g \<or> num_val zcoord > getMaxZ g
           then Inl (ZcoordOutside (getMinZ g) (getMaxZ g))
      else Inr ())"

text \<open>\<open>if not os.path.exists(directory): os.makedirs(directory)\<close>\<close>

definition make_directory :: "world \<Rightarrow> world" where
  "make_directory w =
     (let directory = output_directory w @ subdirectory w
      in if directory \<in> set (dirs w) then w else w\<lparr>dirs := dirs w @ [directory]\<rparr>)"

section \<open>plot_spatial_data\<close>

text \<open>
  The argument \<open>fsrs_to_data\<close>: a NumPy array, or some other sequence (which has a length
  but fails the \<open>isinstance(fsrs_to_data, np.ndarray)\<close> test).
\<close>

datatype data_arg = Ndarray "flt list" | PyList "flt list"

fun data_values :: "data_arg \<Rightarrow> flt list" where
  "data_values (Ndarray xs) = xs"
| "data_values (PyList xs) = xs"

fun is_ndarray :: "data_arg \<Rightarrow> bool" where
  "is_ndarray (Ndarray xs) = True"
| "is_ndarray (PyList xs) = False"

text \<open>
  The error checking of \<open>plot_spatial_data\<close>, in the order of the source, up to
  \<open>_check_zcoord\<close>. The title, suptitle and filename are strings by their type here. On
  success the checked values are returned: the data, the grid size and the z-coordinate.
\<close>

definition check_spatial_args ::
  "geometry \<Rightarrow> data_arg \<Rightarrow> number \<Rightarrow> number option \<Rightarrow> error + (flt list \<times> nat \<times> real)" where
  "check_spatial_args g fsrs_to_data gridsize zcoord =
     (if \<not> is_Geometry g then Inl NotGeometry
      else if \<not> is_ndarray fsrs_to_data then Inl NotNdarray
      else if int (length (data_values fsrs_to_data)) \<noteq> getNumFSRs g
           then Inl (LengthMismatch (int (length (data_values fsrs_to_data))) (getNumFSRs g))
      else (case gridsize of
              FloatV r \<Rightarrow> Inl (GridsizeNotInteger gridsize)
            | OtherV r \<Rightarrow> Inl (GridsizeNotInteger gridsize)
            | IntV n \<Rightarrow>
                if n \<le> 0 then Inl (GridsizeNegative n)
                else (let zcoord = (case zcoord of None \<Rightarrow> FloatV 0 | Some z \<Rightarrow> z)
                      in case check_zcoord g zcoord of
                           Inl e \<Rightarrow> Inl e
                         | Inr u \<Rightarrow> Inr (data_values fsrs_to_data, nat n, num_val zcoord))))"

text \<open>
  One pass of the loop body for the point \<open>(x, y, zcoord)\<close>: the value to store. A NaN
  region id gives the number -1, any other id indexes \<open>fsrs_to_data\<close>.
\<close>

definition sample_value :: "geometry \<Rightarrow> flt list \<Rightarrow> real \<Rightarrow> real \<Rightarrow> real \<Rightarrow> error + flt" where
  "sample_value g fsrs_to_data x y zcoord =
     (case getFSRId g x y zcoord of
        FsrNaN \<Rightarrow> Inr (Fin (- 1))
      | FsrId fsr \<Rightarrow> np_get fsrs_to_data fsr)"

text \<open>The same pass with its effect: the point is handed to the geometry.\<close>

definition sample_point ::
  "geometry \<Rightarrow> flt list \<Rightarrow> real \<Rightarrow> real \<Rightarrow> real \<Rightarrow> world \<Rightarrow> (error + flt) \<times> world" where
  "sample_point g fsrs_to_data x y zcoord w =
     (sample_value g fsrs_to_data x y zcoord, w\<lparr>queries := queries w @ [(x, y, zcoord)]\<rparr>)"

text \<open>
  The inner loop \<open>for j in range(gridsize)\<close> at a fixed \<open>i\<close>, over the remaining values of
  \<open>j\<close>: \<open>x = coords['y'][i]\<close>, \<open>y = coords['x'][j]\<close>, and the value goes to \<open>surface[j][i]\<close>.
\<close>

fun raster_inner ::
  "geometry \<Rightarrow> flt list \<Rightarrow> pixel_coords \<Rightarrow> real \<Rightarrow> nat \<Rightarrow> nat list \<Rightarrow> flt list list \<Rightarrow> world
     \<Rightarrow> (error + flt list list) \<times> world" where
  "raster_inner g fsrs_to_data coords zcoord i [] surface w = (Inr surface, w)"
| "raster_inner g fsrs_to_data coords zcoord i (j # js) surface w =
     (let x = coords_y coords ! i;
          y = coords_x coords ! j
      in case sample_point g fsrs_to_data x y zcoord w of
           (Inl e, w') \<Rightarrow> (Inl e, w')
         | (Inr v, w') \<Rightarrow>
             raster_inner g fsrs_to_data coords zcoord i js
               (surface[j := (surface ! j)[i := v]]) w')"

text \<open>The outer loop \<open>for i in range(gridsize)\<close>, over the remaining values of \<open>i\<close>.\<close>

fun raster_outer ::
  "geometry \<Rightarrow> flt list \<Rightarrow> pixel_coords \<Rightarrow> real \<Rightarrow> nat \<Rightarrow> nat list \<Rightarrow> flt list list \<Rightarrow> world
     \<Rightarrow> (error + flt list list) \<times> world" where
  "raster_outer g fsrs_to_data coords zcoord gridsize [] surface w = (Inr surface, w)"
| "raster_outer g fsrs_to_data coords zcoord gridsize (i # is) surface w =
     (case raster_inner g fsrs_to_data coords zcoord i [0..<gridsize] surface w of
        (Inl e, w') \<Rightarrow> (Inl e, w')
      | (Inr surface', w') \<Rightarrow> raster_outer g fsrs_to_data coords zcoord gridsize is surface' w')"

text \<open>
  The rasterization: \<open>surface = np.zeros((gridsize, gridsize))\<close>, the pixel coordinates,
  and the two loops.
\<close>

definition rasterize ::
  "geometry \<Rightarrow> flt list \<Rightarrow> real \<Rightarrow> nat \<Rightarrow> (real \<times> real) option \<Rightarrow> (real \<times> real) option \<Rightarrow> world
     \<Rightarrow> (error + flt list list) \<times> world" where
  "rasterize g fsrs_to_data zcoord gridsize xlim ylim w =
     (let surface = replicate gridsize (replicate gridsize (Fin 0));
          coords = get_pixel_coords (TINY_MOVE w) g gridsize xlim ylim
      in raster_outer g fsrs_to_data coords zcoord gridsize [0..<gridsize] surface w)"

text \<open>
  \<open>if norm: surface /= np.max(surface)\<close>. The parameter \<open>norm\<close> is written
  \<open>norm_flag\<close> throughout.
\<close>

definition normalize_surface :: "bool \<Rightarrow> flt list list \<Rightarrow> error + flt list list" where
  "normalize_surface norm_flag surface =
     (if norm_flag
      then (case np_max (concat surface) of
              Inl e \<Rightarrow> Inl e
            | Inr m \<Rightarrow> Inr (map (map (\<lambda>v. fl_div v m)) surface))
      else Inr surface)"

text \<open>\<open>if transparent_zeros: surface[np.where(surface == 0.0)] = np.nan\<close>\<close>

definition zeros_to_nan :: "bool \<Rightarrow> flt list list \<Rightarrow> flt list list" where
  "zeros_to_nan transparent_zeros surface =
     (if transparent_zeros
      then map (map (\<lambda>v. if v = Fin 0 then NaN else v)) surface
      else surface)"

text \<open>The two steps between the rasterization and the rendering.\<close>

definition colorize_surface :: "bool \<Rightarrow> bool \<Rightarrow> flt list list \<Rightarrow> error + flt list list" where
  "colorize_surface norm_flag transparent_zeros surface =
     (case normalize_surface norm_flag surface of
        Inl e \<Rightarrow> Inl e
      | Inr surface' \<Rightarrow> Inr (zeros_to_nan transparent_zeros surface'))"

text \<open>
  What \<open>plt.imshow\<close> is given: the surface flipped upside down, the extent and the color
  range. The colormap, the interpolation and the titles do not change the array and are
  left out.
\<close>

record figure =
  fig_image :: "flt list list"
  fig_extent :: "real \<times> real \<times> real \<times> real"
  fig_vmin :: "real option"
  fig_vmax :: "real option"
  fig_colorbar :: bool

definition plot_spatial_data ::
  "geometry \<Rightarrow> data_arg \<Rightarrow> bool \<Rightarrow> bool \<Rightarrow> number option \<Rightarrow> number
     \<Rightarrow> (real \<times> real) option \<Rightarrow> (real \<times> real) option \<Rightarrow> bool \<Rightarrow> fname
     \<Rightarrow> real option \<Rightarrow> real option \<Rightarrow> bool \<Rightarrow> world \<Rightarrow> (error + figure option) \<times> world" where
  "plot_spatial_data g fsrs_to_data norm_flag transparent_zeros zcoord gridsize xlim ylim
       colorbar filename vmin vmax get_figure w =
     (let directory = output_directory w @ subdirectory w;
          w1 = make_directory w
      in case check_spatial_args g fsrs_to_data gridsize zcoord of
           Inl e \<Rightarrow> (Inl e, w1)
         | Inr (data, n, z) \<Rightarrow>
             (case rasterize g data z n xlim ylim w1 of
                (Inl e, w2) \<Rightarrow> (Inl e, w2)
              | (Inr surface, w2) \<Rightarrow>
                  (case colorize_surface norm_flag transparent_zeros surface of
                     Inl e \<Rightarrow> (Inl e, w2)
                   | Inr surface' \<Rightarrow>
                       (let fig = \<lparr>fig_image = rev surface',
                                   fig_extent = coords_bounds (get_pixel_coords (TINY_MOVE w) g n xlim ylim),
                                   fig_vmin = vmin, fig_vmax = vmax, fig_colorbar = colorbar\<rparr>
                        in if get_figure then (Inr (Some fig), w2)
                           else (Inr None, w2\<lparr>saved := saved w2 @ [(directory, filename)]\<rparr>)))))"

section \<open>plot_materials\<close>

text \<open>
  The loop \<open>for i, material_id in enumerate(fsrs_to_materials)\<close>, over the remaining
  indices: \<open>np.where(material_ids == material_id)[0]\<close> is the array of the positions of
  the id in the shuffled list, and storing it in one entry of an integer array needs
  exactly one position (NumPy raises ValueError otherwise).
\<close>

fun relabel :: "int list \<Rightarrow> int list \<Rightarrow> nat list \<Rightarrow> error + int list" where
  "relabel material_ids fsrs_to [] = Inr fsrs_to"
| "relabel material_ids fsrs_to (i # is) =
     (case filter (\<lambda>k. material_ids ! k = fsrs_to ! i) [0..<length material_ids] of
        [k] \<Rightarrow> relabel material_ids (fsrs_to[i := int k]) is
      | _ \<Rightarrow> Inl ValueError)"

text \<open>
  The array \<open>fsrs_to_materials\<close> that \<open>plot_materials\<close> builds, with the generator state
  left behind by the shuffle.
\<close>

definition material_colors :: "rng_ops \<Rightarrow> geometry \<Rightarrow> (error + int list) \<times> nat" where
  "material_colors ops g =
     (let num_fsrs = getNumFSRs g;
          fsrs_to_materials = map (fsr_material g) (arange num_fsrs);
          material_ids = getAllMaterials g;
          (material_ids, r) = rng_shuffle ops (rng_seed ops 1) material_ids
      in (relabel material_ids fsrs_to_materials [0..<length fsrs_to_materials], r))"

text \<open>A call whose result is not used: only its error and its effects remain.\<close>

definition discard :: "(error + 'a) \<times> world \<Rightarrow> (error + unit) \<times> world" where
  "discard p = (case p of (Inl e, w) \<Rightarrow> (Inl e, w) | (Inr v, w) \<Rightarrow> (Inr (), w))"

definition plot_materials ::
  "rng_ops \<Rightarrow> geometry \<Rightarrow> number \<Rightarrow> (real \<times> real) option \<Rightarrow> (real \<times> real) option
     \<Rightarrow> number option \<Rightarrow> world \<Rightarrow> (error + unit) \<times> world" where
  "plot_materials ops g gridsize xlim ylim zcoord w =
     (if \<not> is_Geometry g then (Inl NotGeometry, w)
      else (let zcoord = (case zcoord of None \<Rightarrow> FloatV 0 | Some z \<Rightarrow> z)
            in case check_zcoord g zcoord of
                 Inl e \<Rightarrow> (Inl e, w)
               | Inr u \<Rightarrow>
                   (let num_materials = int (length (getAllMaterials g))
                    in case material_colors ops g of
                         (Inl e, r) \<Rightarrow> (Inl e, w\<lparr>rng_state := r\<rparr>)
                       | (Inr fsrs_to_materials, r) \<Rightarrow>
                           discard (plot_spatial_data g
                             (Ndarray (map (\<lambda>k. Fin (real_of_int k)) fsrs_to_materials))
                             False False (Some zcoord) gridsize xlim ylim False
                             (MaterialsZ (num_val zcoord)) (Some 0)
                             (Some (real_of_int num_materials)) False
                             (w\<lparr>rng_state := r\<rparr>)))))"

section \<open>plot_spatial_fluxes and plot_eigenmode_fluxes\<close>

text \<open>
  The Solver object: the test \<open>'Solver' in str(type(solver))\<close>, its geometry, and the
  flux vector that \<open>setFluxes\<close> stores (one entry per region and energy group, the groups
  of one region side by side).
\<close>

record solver =
  is_Solver :: bool
  getGeometry :: geometry
  solver_fluxes :: "flt list"

text \<open>
  Modelled from the spec: \<open>get_scalar_fluxes\<close> of openmoc.process (not part of the
  sources at hand) gives the flux per region and energy group as an array with one row
  per region and one column per group; a flux vector of any other size is a ValueError.
\<close>

definition get_scalar_fluxes :: "solver \<Rightarrow> error + flt list list" where
  "get_scalar_fluxes s =
     (let num_fsrs = nat (getNumFSRs (getGeometry s));
          num_groups = nat (getNumEnergyGroups (getGeometry s))
      in if length (solver_fluxes s) \<noteq> num_fsrs * num_groups then Inl ValueError
         else Inr (map (\<lambda>f. take num_groups (drop (f * num_groups) (solver_fluxes s)))
                     [0..<num_fsrs]))"

text \<open>\<open>a[:, index]\<close> for an array with \<open>ncols\<close> columns.\<close>

definition np_column :: "'a list list \<Rightarrow> nat \<Rightarrow> int \<Rightarrow> error + 'a list" where
  "np_column a ncols i =
     (case wrap_index ncols i of
        None \<Rightarrow> Inl IndexError
      | Some k \<Rightarrow> Inr (map (\<lambda>row. row ! k) a))"

text \<open>The loop \<open>for index, group in enumerate(energy_groups)\<close>, with \<open>grp\<close> for \<open>group\<close>.\<close>

fun spatial_fluxes_loop ::
  "geometry \<Rightarrow> flt list list \<Rightarrow> real \<Rightarrow> bool \<Rightarrow> number \<Rightarrow> (real \<times> real) option
     \<Rightarrow> (real \<times> real) option \<Rightarrow> (nat \<times> int) list \<Rightarrow> world \<Rightarrow> (error + unit) \<times> world" where
  "spatial_fluxes_loop g fluxes zcoord norm_flag gridsize xlim ylim [] w = (Inr (), w)"
| "spatial_fluxes_loop g fluxes zcoord norm_flag gridsize xlim ylim ((index, grp) # rest) w =
     (case np_column fluxes (nat (getNumEnergyGroups g)) (int index) of
        Inl e \<Rightarrow> (Inl e, w)
      | Inr column \<Rightarrow>
          (case plot_spatial_data g (Ndarray column) norm_flag False (Some (FloatV zcoord))
                  gridsize xlim ylim True (FsrFluxGroupZ grp zcoord) None None False w of
             (Inl e, w') \<Rightarrow> (Inl e, w')
           | (Inr fig, w') \<Rightarrow>
               spatial_fluxes_loop g fluxes zcoord norm_flag gridsize xlim ylim rest w'))"

definition plot_spatial_fluxes ::
  "solver \<Rightarrow> int list \<Rightarrow> bool \<Rightarrow> number \<Rightarrow> (real \<times> real) option \<Rightarrow> (real \<times> real) option
     \<Rightarrow> world \<Rightarrow> (error + unit) \<times> world" where
  "plot_spatial_fluxes s energy_groups norm_flag gridsize xlim ylim w =
     (if \<not> is_Solver s then (Inl NotSolver, w)
      else (let g = getGeometry s;
                zcoord = fsr_point0_z g
            in case get_scalar_fluxes s of
                 Inl e \<Rightarrow> (Inl e, w)
               | Inr fluxes \<Rightarrow>
                   spatial_fluxes_loop g fluxes zcoord norm_flag gridsize xlim ylim
                     (enumerate 0 energy_groups) w))"

text \<open>
  The IRAMSolver object: the test on its type, \<open>_num_modes\<close>, the columns of
  \<open>_eigenvectors\<close> (the real parts, in the solver's precision) and \<open>_moc_solver\<close>.
\<close>

record iramsolver =
  is_IRAMSolver :: bool
  num_modes :: int
  eigenvectors :: "flt list list"
  moc_solver :: solver

text \<open>The checks of the loop \<open>for mode in eigenmodes\<close>; the modes are integers by type.\<close>

fun check_eigenmodes :: "int \<Rightarrow> int list \<Rightarrow> error + unit" where
  "check_eigenmodes n [] = Inr ()"
| "check_eigenmodes n (mode # ms) =
     (if mode \<le> 0 then Inl (EigenmodeNotPositive mode)
      else if mode > n then Inl (EigenmodeTooLarge mode n)
      else check_eigenmodes n ms)"

text \<open>\<open>str\<close> of an integer, \<open>zfill\<close> of a string without a sign, \<open>max\<close> of a list.\<close>

fun str_nat :: "nat \<Rightarrow> string" where
  "str_nat n =
     (if n < 10 then [char_of (48 + n)]
      else str_nat (n div 10) @ [char_of (48 + n mod 10)])"

definition str_int :: "int \<Rightarrow> string" where
  "str_int k = (if k < 0 then CHR ''-'' # str_nat (nat (- k)) else str_nat (nat k))"

definition zfill :: "nat \<Rightarrow> string \<Rightarrow> string" where
  "zfill width s = replicate (width - length s) CHR ''0'' @ s"

fun py_max :: "int list \<Rightarrow> error + int" where
  "py_max [] = Inl ValueError"
| "py_max (x # xs) = Inr (fold max xs x)"

text \<open>
  The sweep \<open>for mode in eigenmodes\<close>, over the remaining modes; \<open>eigenmodes\<close> is the whole
  list, read by \<open>max(eigenmodes)\<close>.
\<close>

fun eigenmode_loop ::
  "iramsolver \<Rightarrow> int list \<Rightarrow> bool \<Rightarrow> int list \<Rightarrow> number \<Rightarrow> (real \<times> real) option
     \<Rightarrow> (real \<times> real) option \<Rightarrow> int list \<Rightarrow> world \<Rightarrow> (error + unit) \<times> world" where
  "eigenmode_loop irs eigenmodes norm_flag energy_groups gridsize xlim ylim [] w = (Inr (), w)"
| "eigenmode_loop irs eigenmodes norm_flag energy_groups gridsize xlim ylim (mode # ms) w =
     (case np_get (eigenvectors irs) (mode - 1) of
        Inl e \<Rightarrow> (Inl e, w)
      | Inr eigenvec \<Rightarrow>
          (let eigenvec = (if mode = 1 then map fl_abs eigenvec else eigenvec);
               moc = (moc_solver irs)\<lparr>solver_fluxes := eigenvec\<rparr>
           in case py_max eigenmodes of
                Inl e \<Rightarrow> (Inl e, w)
              | Inr m \<Rightarrow>
                  (let num_digits = length (str_int m);
                       w1 = w\<lparr>subdirectory :=
                               ''/plots/eig-'' @ zfill num_digits (str_int mode) @ ''-flux/''\<rparr>
                   in case plot_spatial_fluxes moc energy_groups norm_flag gridsize xlim ylim w1 of
                        (Inl e, w2) \<Rightarrow> (Inl e, w2)
                      | (Inr u, w2) \<Rightarrow>
                          eigenmode_loop irs eigenmodes norm_flag energy_groups gridsize
                            xlim ylim ms w2)))"

definition plot_eigenmode_fluxes ::
  "iramsolver \<Rightarrow> int list \<Rightarrow> bool \<Rightarrow> int list \<Rightarrow> number \<Rightarrow> (real \<times> real) option
     \<Rightarrow> (real \<times> real) option \<Rightarrow> world \<Rightarrow> (error + unit) \<times> world" where
  "plot_eigenmode_fluxes irs eigenmodes norm_flag energy_groups gridsize xlim ylim w =
     (let w1 = make_directory w
      in if \<not> is_IRAMSolver irs then (Inl NotIRAMSolver, w1)
         else (let eigenmodes = (if eigenmodes = [] then [1..num_modes irs] else eigenmodes)
               in case check_eigenmodes (num_modes irs) eigenmodes of
                    Inl e \<Rightarrow> (Inl e, w1)
                  | Inr u \<Rightarrow>
                      (case eigenmode_loop irs eigenmodes norm_flag energy_groups gridsize
                              xlim ylim eigenmodes w1 of
                         (Inl e, w2) \<Rightarrow> (Inl e, w2)
                       | (Inr u, w2) \<Rightarrow> (Inr (), w2\<lparr>subdirectory := ''/plots/''\<rparr>))))"

section \<open>The group bounds of plot_energy_fluxes\<close>

text \<open>
  The argument \<open>group_bounds\<close>: None, a tuple, list or array of numbers (of any numeric
  type), or anything else.
\<close>

datatype bounds_arg = BoundsNone | BoundsSeq "number list" | BoundsOther

text \<open>
  The loop \<open>for bound in group_bounds\<close>: a bound that is neither an integer nor a float
  is an error (its message prints the last region of \<open>fsrs\<close>, not the bound), and so is a
  negative bound.
\<close>

fun check_bounds :: "number list \<Rightarrow> error + unit" where
  "check_bounds [] = Inr ()"
| "check_bounds (bound # bs) =
     (if \<not> is_integer bound \<and> \<not> is_float bound then Inl BoundNotNumber
      else if num_val bound < 0 then Inl (BoundNegative (num_val bound))
      else check_bounds bs)"

text \<open>
  The block of \<open>plot_energy_fluxes\<close> that validates \<open>group_bounds\<close> for \<open>num_groups\<close> energy
  groups; it yields the bounds to plot with and the \<open>loglog\<close> flag.
\<close>

definition check_group_bounds ::
  "int \<Rightarrow> bounds_arg \<Rightarrow> bool \<Rightarrow> error + (number list \<times> bool)" where
  "check_group_bounds num_groups group_bounds loglog =
     (case group_bounds of
        BoundsSeq bs \<Rightarrow>
          (if \<not> list_all (\<lambda>(low, up). num_val low < num_val up) (zip bs (drop 1 bs))
           then Inl BoundsNotMonotonic
           else if int (length bs) \<noteq> num_groups + 1
                then Inl (BoundsWrongCount (int (length bs)))
           else (case check_bounds bs of
                   Inl e \<Rightarrow> Inl e
                 | Inr u \<Rightarrow> Inr (bs, loglog)))
      | BoundsNone \<Rightarrow> Inr (map IntV (arange (num_groups + 1)), False)
      | BoundsOther \<Rightarrow> Inl BoundsNotSequence)"

section \<open>Concrete instances\<close>

text \<open>
  A geometry with two regions on the window \<open>[0, 2] \<times> [0, 4]\<close>: no region is found for
  a point whose x-coordinate exceeds 3, region 0 holds the points with \<open>y \<le> 1\<close>, region
  1 the others. With a solver and an IRAMSolver with two eigenmodes on it.
\<close>

definition demo_geometry :: geometry where
  "demo_geometry = \<lparr>is_Geometry = True, getNumFSRs = 2, getNumEnergyGroups = 1,
     getMinX = 0, getMaxX = 2, getMinY = 0, getMaxY = 4, getMinZ = - 1, getMaxZ = 1,
     getFSRId = (\<lambda>x y z. if 3 < x then FsrNaN else if y \<le> 1 then FsrId 0 else FsrId 1),
     fsr_material = (\<lambda>f. if f = 0 then 10 else 20),
     getAllMaterials = [10, 20],
     fsr_point0_z = 0\<rparr>"

definition demo_solver :: solver where
  "demo_solver = \<lparr>is_Solver = True, getGeometry = demo_geometry, solver_fluxes = [Fin 0, Fin 0]\<rparr>"

definition demo_iramsolver :: iramsolver where
  "demo_iramsolver = \<lparr>is_IRAMSolver = True, num_modes = 2,
     eigenvectors = [[Fin (- 3), Fin 4], [Fin 1, Fin (- 2)]], moc_solver = demo_solver\<rparr>"

section \<open>The identity colorizer: seed and permutation\<close>

lemma colorize_seed_unused: "colorize ops data n s w = colorize ops data n 1 w"
  by (simp add: colorize_def color_table_def)

text \<open>
  C3. The claim: \<open>_colorize(data, N, s)\<close> seeds the generator with the supplied seed \<open>s\<close>.
  The code calls \<open>numpy.random.seed(1)\<close> whatever \<open>s\<close> is. At the seed 2, with a generator
  whose shuffle under seed 2 is \<open>[2, 0, 1]\<close> and under seed 1 is \<open>[1, 2, 0]\<close>, the colorizer
  returns the table of seed 1.
\<close>

theorem colorize_seed_two_uses_seed_one:
  "fst (colorize demo_rng [0, 1, 2] 3 2 demo_world) = Inr [1, 2, 0]
   \<and> fst (rng_shuffle demo_rng (rng_seed demo_rng 2) (arange 3)) = [2, 0, 1]
   \<and> fst (rng_shuffle demo_rng (rng_seed demo_rng 1) (arange 3)) = [1, 2, 0]"
  by code_simp

lemma put_loop_upt:
  "length a = n \<Longrightarrow> length vs = n - k \<Longrightarrow> k \<le> n \<Longrightarrow>
     put_loop a (zip (map int [k..<n]) vs) = Inr (take k a @ vs)"
proof (induction vs arbitrary: k a)
  case Nil
  then show ?case by simp
next
  case (Cons v vs)
  then have kn: "k < n" by simp
  have upt: "[k..<n] = k # [Suc k..<n]" using kn by (simp add: upt_conv_Cons)
  have len: "length (a[k := v]) = n" using Cons.prems by simp
  have "put_loop (a[k := v]) (zip (map int [Suc k..<n]) vs) = Inr (take (Suc k) (a[k := v]) @ vs)"
    using Cons.IH [OF len] Cons.prems kn by simp
  moreover have "take (Suc k) (a[k := v]) = take k a @ [v]"
    using kn Cons.prems by (simp add: take_Suc_conv_app_nth)
  ultimately show ?case using kn Cons.prems upt by (simp add: wrap_index_def)
qed

lemma np_put_arange:
  "length vs = nat n \<Longrightarrow> np_put (arange n) (arange n) vs = Inr vs"
  using put_loop_upt [of "arange n" "nat n" vs 0]
  by (simp add: np_put_def arange_def)

lemma color_table_shuffle:
  assumes "\<forall>r xs. mset (fst (rng_shuffle ops r xs)) = mset xs"
  shows "color_table ops n seed =
           (Inr (fst (rng_shuffle ops (rng_seed ops 1) (arange n))),
            snd (rng_shuffle ops (rng_seed ops 1) (arange n)))"
proof -
  let ?p = "rng_shuffle ops (rng_seed ops 1) (arange n)"
  have "mset (fst ?p) = mset (arange n)" using assms by blast
  then have "length (fst ?p) = length (arange n)" by (metis size_mset)
  then have "length (fst ?p) = nat n" by (simp add: arange_def)
  then show ?thesis
    by (simp add: color_table_def Let_def split_beta np_put_arange)
qed

lemma set_arange: "set (arange n) = {0..<n}"
proof -
  have "int ` {0..<nat n} = {0..<n}"
  proof (rule set_eqI)
    fix x show "x \<in> int ` {0..<nat n} \<longleftrightarrow> x \<in> {0..<n}"
    proof
      assume "x \<in> int ` {0..<nat n}" then show "x \<in> {0..<n}" by auto
    next
      assume "x \<in> {0..<n}"
      then have "x = int (nat x)" "nat x \<in> {0..<nat n}" by auto
      then show "x \<in> int ` {0..<nat n}" by blast
    qed
  qed
  then show ?thesis by (simp add: arange_def)
qed

lemma distinct_arange: "distinct (arange n)"
  by (simp add: arange_def distinct_map)

lemma mset_rotate_eq: "mset (rotate r xs) = mset xs"
proof -
  let ?k = "r mod length xs"
  have "mset xs = mset (take ?k xs @ drop ?k xs)"
    by (simp only: append_take_drop_id)
  also have "\<dots> = mset (drop ?k xs @ take ?k xs)"
    by (simp only: mset_append add.commute)
  also have "\<dots> = mset (rotate r xs)"
    by (simp only: rotate_drop_take)
  finally show ?thesis by simp
qed

text \<open>
  C4. Whenever NumPy's shuffle returns a rearrangement of its argument, for every
  \<open>N > 0\<close> the table \<open>ids_to_colors\<close> built by \<open>_colorize\<close> is a bijection on \<open>[0, N)\<close>, the
  result is that table read at the data, and two calls with the same data and \<open>N\<close> give
  the same result whatever state the generator was in before each call.
\<close>

theorem colorize_bijection:
  assumes perm: "\<forall>r xs. mset (fst (rng_shuffle ops r xs)) = mset xs" and pos: "0 < n"
  shows "(\<exists>t r. color_table ops n seed = (Inr t, r) \<and> length t = nat n
            \<and> bij_betw (\<lambda>i. t ! nat i) {0..<n} {0..<n}
            \<and> (\<forall>w. fst (colorize ops data n seed w) = np_take t data))
         \<and> fst (colorize ops data n seed w1) = fst (colorize ops data n seed w2)"
proof -
  let ?p = "rng_shuffle ops (rng_seed ops 1) (arange n)"
  let ?t = "fst ?p"
  have ct: "color_table ops n seed = (Inr ?t, snd ?p)"
    using color_table_shuffle [OF perm] .
  have ms: "mset ?t = mset (arange n)" using perm by blast
  have len: "length ?t = nat n"
    using ms by (metis size_mset length_map length_upt arange_def diff_zero)
  have dist: "distinct ?t"
    using ms distinct_arange by (metis mset_eq_imp_distinct_iff)
  have st: "set ?t = {0..<n}"
    using ms set_arange by (metis mset_eq_setD)
  have inj: "inj_on (\<lambda>i. ?t ! nat i) {0..<n}"
  proof (rule inj_onI)
    fix x y assume xy: "x \<in> {0..<n}" "y \<in> {0..<n}" "?t ! nat x = ?t ! nat y"
    then have "nat x < length ?t" "nat y < length ?t" using len by auto
    then have "nat x = nat y" using dist xy(3) by (simp add: nth_eq_iff_index_eq)
    then show "x = y" using xy by auto
  qed
  have img: "(\<lambda>i. ?t ! nat i) ` {0..<n} = {0..<n}"
  proof -
    have "(\<lambda>i. ?t ! nat i) ` {0..<n} = set ?t"
    proof (rule set_eqI)
      fix v show "v \<in> (\<lambda>i. ?t ! nat i) ` {0..<n} \<longleftrightarrow> v \<in> set ?t"
      proof
        assume "v \<in> (\<lambda>i. ?t ! nat i) ` {0..<n}"
        then obtain i where i: "0 \<le> i" "i < n" "v = ?t ! nat i" by auto
        then have "nat i < length ?t" using len by simp
        then show "v \<in> set ?t" using i(3) by simp
      next
        assume "v \<in> set ?t"
        then obtain k where k: "k < length ?t" "v = ?t ! k" by (metis in_set_conv_nth)
        then have "int k \<in> {0..<n}" "v = ?t ! nat (int k)" using len by auto
        then show "v \<in> (\<lambda>i. ?t ! nat i) ` {0..<n}" by blast
      qed
    qed
    then show ?thesis using st by simp
  qed
  have bij: "bij_betw (\<lambda>i. ?t ! nat i) {0..<n} {0..<n}"
    using inj img by (simp add: bij_betw_def)
  have app: "\<forall>w. fst (colorize ops data n seed w) = np_take ?t data"
    by (simp add: colorize_def ct)
  have same: "fst (colorize ops data n seed w1) = fst (colorize ops data n seed w2)"
    using app by simp
  show ?thesis using ct len bij app same by blast
qed

theorem colorize_bijection_witness:
  "(\<forall>r xs. mset (fst (rng_shuffle demo_rng r xs)) = mset xs) \<and> (0::int) < 3
   \<and> (\<exists>t r. color_table demo_rng 3 1 = (Inr t, r) \<and> length t = nat 3
          \<and> bij_betw (\<lambda>i. t ! nat i) {0..<3} {0..<3}
          \<and> (\<forall>w. fst (colorize demo_rng [2, 0] 3 1 w) = np_take t [2, 0]))
   \<and> fst (colorize demo_rng [2, 0] 3 1 demo_world)
       = fst (colorize demo_rng [2, 0] 3 1 (demo_world\<lparr>rng_state := 7\<rparr>))"
proof -
  have h: "\<forall>r xs. mset (fst (rng_shuffle demo_rng r xs)) = mset xs"
    by (simp add: demo_rng_def mset_rotate_eq)
  have p: "(0::int) < 3" by simp
  show ?thesis
    using h p colorize_bijection [OF h p, of 1 "[2, 0]" demo_world "demo_world\<lparr>rng_state := 7\<rparr>"]
    by blast
qed

section \<open>The rasterization loop\<close>

lemma raster_inner_Cons:
  "raster_inner g d cs z i (j # js) s w =
     (case sample_value g d (coords_y cs ! i) (coords_x cs ! j) z of
        Inl e \<Rightarrow> (Inl e, w\<lparr>queries := queries w @ [(coords_y cs ! i, coords_x cs ! j, z)]\<rparr>)
      | Inr v \<Rightarrow> raster_inner g d cs z i js (s[j := (s ! j)[i := v]])
                  (w\<lparr>queries := queries w @ [(coords_y cs ! i, coords_x cs ! j, z)]\<rparr>))"
  by (simp add: sample_point_def Let_def split: sum.splits)

lemma raster_inner_Inr:
  assumes "raster_inner g d cs z i js s w = (Inr s', w')" and "distinct js"
  shows "length s' = length s
       \<and> (\<forall>j<length s. length (s' ! j) = length (s ! j))
       \<and> (\<forall>j\<in>set js. j < length s \<longrightarrow> i < length (s ! j) \<longrightarrow>
             sample_value g d (coords_y cs ! i) (coords_x cs ! j) z = Inr (s' ! j ! i))
       \<and> (\<forall>j<length s. \<forall>k. j \<notin> set js \<or> k \<noteq> i \<longrightarrow> s' ! j ! k = s ! j ! k)"
  using assms
proof (induction js arbitrary: s w)
  case Nil
  then show ?case by simp
next
  case (Cons j js)
  from Cons.prems(1) obtain v where
    sv: "sample_value g d (coords_y cs ! i) (coords_x cs ! j) z = Inr v"
    by (auto simp: raster_inner_Cons simp del: raster_inner.simps split: sum.splits)
  define s1 where "s1 = s[j := (s ! j)[i := v]]"
  define w1 where "w1 = w\<lparr>queries := queries w @ [(coords_y cs ! i, coords_x cs ! j, z)]\<rparr>"
  have rec: "raster_inner g d cs z i js s1 w1 = (Inr s', w')"
    using Cons.prems(1) sv by (simp add: raster_inner_Cons s1_def w1_def del: raster_inner.simps)
  have dj: "distinct js" and jn: "j \<notin> set js" using Cons.prems(2) by simp_all
  note IH = Cons.IH [OF rec dj]
  have l1: "length s1 = length s" by (simp add: s1_def)
  have r1: "a < length s \<Longrightarrow> length (s1 ! a) = length (s ! a)" for a
    by (cases "a = j") (simp_all add: s1_def)
  have A: "length s' = length s" using IH l1 by simp
  have B: "\<forall>a<length s. length (s' ! a) = length (s ! a)" using IH l1 r1 by simp
  have C: "\<forall>a\<in>set (j # js). a < length s \<longrightarrow> i < length (s ! a) \<longrightarrow>
             sample_value g d (coords_y cs ! i) (coords_x cs ! a) z = Inr (s' ! a ! i)"
  proof (intro ballI impI)
    fix a assume a: "a \<in> set (j # js)" "a < length s" "i < length (s ! a)"
    show "sample_value g d (coords_y cs ! i) (coords_x cs ! a) z = Inr (s' ! a ! i)"
    proof (cases "a \<in> set js")
      case True
      then show ?thesis using IH a l1 r1 by simp
    next
      case False
      then have aj: "a = j" using a(1) by simp
      have "s' ! j ! i = s1 ! j ! i" using IH jn a(2) aj l1 by simp
      also have "\<dots> = v" using a aj by (simp add: s1_def)
      finally show ?thesis using sv aj by simp
    qed
  qed
  have D: "\<forall>a<length s. \<forall>k. a \<notin> set (j # js) \<or> k \<noteq> i \<longrightarrow> s' ! a ! k = s ! a ! k"
  proof (intro allI impI)
    fix a k assume a: "a < length s" "a \<notin> set (j # js) \<or> k \<noteq> i"
    have "s' ! a ! k = s1 ! a ! k" using IH a l1 by auto
    also have "\<dots> = s ! a ! k" using a by (cases "a = j") (auto simp: s1_def)
    finally show "s' ! a ! k = s ! a ! k" .
  qed
  show ?case using A B C D by blast
qed

lemma raster_inner_queries:
  "raster_inner g d cs z i js s w = (Inr s', w') \<Longrightarrow>
     queries w' = queries w @ map (\<lambda>j. (coords_y cs ! i, coords_x cs ! j, z)) js"
proof (induction js arbitrary: s w)
  case Nil
  then show ?case by simp
next
  case (Cons j js)
  then show ?case
    by (auto simp: raster_inner_Cons simp del: raster_inner.simps split: sum.splits)
qed

lemma raster_inner_Inl:
  "raster_inner g d cs z i js s w = (Inl e, w') \<Longrightarrow>
     \<exists>j\<in>set js. sample_value g d (coords_y cs ! i) (coords_x cs ! j) z = Inl e"
proof (induction js arbitrary: s w)
  case Nil
  then show ?case by simp
next
  case (Cons j js)
  then show ?case
    by (auto simp: raster_inner_Cons simp del: raster_inner.simps split: sum.splits)
qed

lemma raster_outer_Inr:
  assumes "raster_outer g d cs z n is s w = (Inr s', w')" and "distinct is"
    and "length s = n" and "\<forall>j<n. length (s ! j) = m"
  shows "length s' = n
       \<and> (\<forall>j<n. length (s' ! j) = m)
       \<and> (\<forall>i\<in>set is. \<forall>j<n. i < m \<longrightarrow>
             sample_value g d (coords_y cs ! i) (coords_x cs ! j) z = Inr (s' ! j ! i))
       \<and> (\<forall>j<n. \<forall>k. k \<notin> set is \<longrightarrow> s' ! j ! k = s ! j ! k)"
  using assms
proof (induction "is" arbitrary: s w)
  case Nil
  then show ?case by simp
next
  case (Cons i "is")
  from Cons.prems(1) obtain s1 w1 where
    inner: "raster_inner g d cs z i [0..<n] s w = (Inr s1, w1)"
    and rec: "raster_outer g d cs z n is s1 w1 = (Inr s', w')"
    by (auto split: sum.splits prod.splits)
  have di: "distinct is" and ini: "i \<notin> set is" using Cons.prems(2) by simp_all
  have I: "length s1 = length s
       \<and> (\<forall>j<length s. length (s1 ! j) = length (s ! j))
       \<and> (\<forall>j\<in>set [0..<n]. j < length s \<longrightarrow> i < length (s ! j) \<longrightarrow>
             sample_value g d (coords_y cs ! i) (coords_x cs ! j) z = Inr (s1 ! j ! i))
       \<and> (\<forall>j<length s. \<forall>k. j \<notin> set [0..<n] \<or> k \<noteq> i \<longrightarrow> s1 ! j ! k = s ! j ! k)"
    using raster_inner_Inr [OF inner] by simp
  have l1: "length s1 = n" using I Cons.prems(3) by simp
  have r1: "\<forall>j<n. length (s1 ! j) = m" using I Cons.prems(3,4) by simp
  note IH = Cons.IH [OF rec di l1 r1]
  have C: "\<forall>a\<in>set (i # is). \<forall>j<n. a < m \<longrightarrow>
             sample_value g d (coords_y cs ! a) (coords_x cs ! j) z = Inr (s' ! j ! a)"
  proof (intro ballI allI impI)
    fix a j assume a: "a \<in> set (i # is)" "j < n" "a < m"
    show "sample_value g d (coords_y cs ! a) (coords_x cs ! j) z = Inr (s' ! j ! a)"
    proof (cases "a \<in> set is")
      case True
      then show ?thesis using IH a by simp
    next
      case False
      then have ai: "a = i" using a(1) by simp
      have "s' ! j ! i = s1 ! j ! i" using IH ini a(2) by simp
      moreover have "sample_value g d (coords_y cs ! i) (coords_x cs ! j) z = Inr (s1 ! j ! i)"
        using I a ai Cons.prems(3,4) by simp
      ultimately show ?thesis using ai by simp
    qed
  qed
  have D: "\<forall>j<n. \<forall>k. k \<notin> set (i # is) \<longrightarrow> s' ! j ! k = s ! j ! k"
  proof (intro allI impI)
    fix j k assume a: "j < n" "k \<notin> set (i # is)"
    have "s' ! j ! k = s1 ! j ! k" using IH a by simp
    also have "\<dots> = s ! j ! k" using I a Cons.prems(3) by simp
    finally show "s' ! j ! k = s ! j ! k" .
  qed
  show ?case using IH C D by blast
qed

lemma raster_outer_queries:
  "raster_outer g d cs z n is s w = (Inr s', w') \<Longrightarrow>
     queries w' = queries w @
       concat (map (\<lambda>i. map (\<lambda>j. (coords_y cs ! i, coords_x cs ! j, z)) [0..<n]) is)"
proof (induction "is" arbitrary: s w)
  case Nil
  then show ?case by simp
next
  case (Cons i "is")
  from Cons.prems obtain s1 w1 where
    inner: "raster_inner g d cs z i [0..<n] s w = (Inr s1, w1)"
    and rec: "raster_outer g d cs z n is s1 w1 = (Inr s', w')"
    by (auto split: sum.splits prod.splits)
  show ?case using Cons.IH [OF rec] raster_inner_queries [OF inner] by simp
qed

lemma raster_outer_Inl:
  "raster_outer g d cs z n is s w = (Inl e, w') \<Longrightarrow>
     \<exists>i\<in>set is. \<exists>j<n. sample_value g d (coords_y cs ! i) (coords_x cs ! j) z = Inl e"
proof (induction "is" arbitrary: s w)
  case Nil
  then show ?case by simp
next
  case (Cons i "is")
  show ?case
  proof (cases "raster_inner g d cs z i [0..<n] s w")
    case (Pair r w1)
    show ?thesis
    proof (cases r)
      case (Inl e1)
      then have "e1 = e" using Cons.prems Pair by simp
      then show ?thesis using raster_inner_Inl [of g d cs z i "[0..<n]" s w e w1] Pair Inl by auto
    next
      case (Inr s1)
      then have "raster_outer g d cs z n is s1 w1 = (Inl e, w')" using Cons.prems Pair by simp
      then show ?thesis using Cons.IH by auto
    qed
  qed
qed

lemma rasterize_entries:
  assumes "rasterize g d z n xlim ylim w = (Inr surface, w')"
  shows "length surface = n \<and> (\<forall>j<n. length (surface ! j) = n)
       \<and> (\<forall>i<n. \<forall>j<n.
            sample_value g d (coords_y (get_pixel_coords (TINY_MOVE w) g n xlim ylim) ! i)
              (coords_x (get_pixel_coords (TINY_MOVE w) g n xlim ylim) ! j) z
              = Inr (surface ! j ! i))"
proof -
  let ?cs = "get_pixel_coords (TINY_MOVE w) g n xlim ylim"
  let ?s0 = "replicate n (replicate n (Fin 0))"
  have run: "raster_outer g d ?cs z n [0..<n] ?s0 w = (Inr surface, w')"
    using assms by (simp add: rasterize_def Let_def)
  have "length ?s0 = n" "\<forall>j<n. length (?s0 ! j) = n" by simp_all
  from raster_outer_Inr [OF run _ this] show ?thesis by simp
qed

lemma rasterize_queries:
  assumes "rasterize g d z n xlim ylim w = (Inr surface, w')"
  shows "queries w' = queries w @
           concat (map (\<lambda>i. map (\<lambda>j. (coords_y (get_pixel_coords (TINY_MOVE w) g n xlim ylim) ! i, coords_x (get_pixel_coords (TINY_MOVE w) g n xlim ylim) ! j, z)) [0..<n])
                     [0..<n])"
  using assms raster_outer_queries [of g d "get_pixel_coords (TINY_MOVE w) g n xlim ylim" z n "[0..<n]"]
  by (simp add: rasterize_def Let_def)

lemma rasterize_Inl:
  assumes "rasterize g d z n xlim ylim w = (Inl e, w')"
  shows "\<exists>i<n. \<exists>j<n. \<exists>k.
           getFSRId g (coords_y (get_pixel_coords (TINY_MOVE w) g n xlim ylim) ! i) (coords_x (get_pixel_coords (TINY_MOVE w) g n xlim ylim) ! j) z = FsrId k \<and> np_get d k = Inl e"
proof -
  have "raster_outer g d (get_pixel_coords (TINY_MOVE w) g n xlim ylim) z n [0..<n] (replicate n (replicate n (Fin 0))) w = (Inl e, w')"
    using assms by (simp add: rasterize_def Let_def)
  from raster_outer_Inl [OF this] obtain i j where
    ij: "i < n" "j < n" "sample_value g d (coords_y (get_pixel_coords (TINY_MOVE w) g n xlim ylim) ! i) (coords_x (get_pixel_coords (TINY_MOVE w) g n xlim ylim) ! j) z = Inl e"
    by auto
  from ij(3) obtain k where
    "getFSRId g (coords_y (get_pixel_coords (TINY_MOVE w) g n xlim ylim) ! i) (coords_x (get_pixel_coords (TINY_MOVE w) g n xlim ylim) ! j) z = FsrId k" "np_get d k = Inl e"
    by (auto simp: sample_value_def split: fsr_id.splits)
  then show ?thesis using ij(1,2) by blast
qed

text \<open>
  C1. A grid sample for which the geometry finds no region (its region id is NaN) does
  not raise: its value is the number -1, not an entry of \<open>fsrs_to_data\<close>. When the loop
  ends, \<open>surface[j][i]\<close> is -1 for that sample; and when the loop raises, the error comes
  from a sample whose region was found and whose id is no index of \<open>fsrs_to_data\<close>.
\<close>

theorem unlocated_sample_gets_sentinel:
  assumes "i < n" and "j < n"
    and "getFSRId g (coords_y (get_pixel_coords (TINY_MOVE w) g n xlim ylim) ! i) (coords_x (get_pixel_coords (TINY_MOVE w) g n xlim ylim) ! j) z = FsrNaN"
  shows "sample_value g d (coords_y (get_pixel_coords (TINY_MOVE w) g n xlim ylim) ! i) (coords_x (get_pixel_coords (TINY_MOVE w) g n xlim ylim) ! j) z = Inr (Fin (- 1))
       \<and> (\<forall>surface w'. rasterize g d z n xlim ylim w = (Inr surface, w')
             \<longrightarrow> surface ! j ! i = Fin (- 1))
       \<and> (\<forall>e w'. rasterize g d z n xlim ylim w = (Inl e, w')
             \<longrightarrow> (\<exists>a<n. \<exists>b<n. \<exists>k.
                    getFSRId g (coords_y (get_pixel_coords (TINY_MOVE w) g n xlim ylim) ! a) (coords_x (get_pixel_coords (TINY_MOVE w) g n xlim ylim) ! b) z = FsrId k
                    \<and> np_get d k = Inl e))"
proof -
  have sv: "sample_value g d (coords_y (get_pixel_coords (TINY_MOVE w) g n xlim ylim) ! i) (coords_x (get_pixel_coords (TINY_MOVE w) g n xlim ylim) ! j) z = Inr (Fin (- 1))"
    using assms(3) by (simp add: sample_value_def)
  have ok: "surface ! j ! i = Fin (- 1)"
    if "rasterize g d z n xlim ylim w = (Inr surface, w')" for surface w'
    using rasterize_entries [OF that] assms(1,2) sv by simp
  show ?thesis using sv ok rasterize_Inl by blast
qed

theorem unlocated_sample_gets_sentinel_witness:
  "(1::nat) < 2 \<and> (0::nat) < 2
   \<and> getFSRId demo_geometry (coords_y (get_pixel_coords (TINY_MOVE demo_world) demo_geometry 2 None None) ! 1) (coords_x (get_pixel_coords (TINY_MOVE demo_world) demo_geometry 2 None None) ! 0) 0 = FsrNaN
   \<and> sample_value demo_geometry [Fin 5, Fin 7] (coords_y (get_pixel_coords (TINY_MOVE demo_world) demo_geometry 2 None None) ! 1) (coords_x (get_pixel_coords (TINY_MOVE demo_world) demo_geometry 2 None None) ! 0) 0
       = Inr (Fin (- 1))
   \<and> rasterize demo_geometry [Fin 5, Fin 7] 0 2 None None demo_world
       = (Inr [[Fin 5, Fin (- 1)], [Fin 7, Fin (- 1)]],
          demo_world\<lparr>queries := [(0, 0, 0), (0, 2, 0), (4, 0, 0), (4, 2, 0)]\<rparr>)
   \<and> [[Fin 5, Fin (- 1)], [Fin 7, Fin (- 1)]] ! 0 ! 1 = Fin (- 1)"
proof -
  have h1: "(1::nat) < 2" and h2: "(0::nat) < 2" by simp_all
  have h3: "getFSRId demo_geometry (coords_y (get_pixel_coords (TINY_MOVE demo_world) demo_geometry 2 None None) ! 1) (coords_x (get_pixel_coords (TINY_MOVE demo_world) demo_geometry 2 None None) ! 0) 0 = FsrNaN"
    by code_simp
  have run: "rasterize demo_geometry [Fin 5, Fin 7] 0 2 None None demo_world
       = (Inr [[Fin 5, Fin (- 1)], [Fin 7, Fin (- 1)]],
          demo_world\<lparr>queries := [(0, 0, 0), (0, 2, 0), (4, 0, 0), (4, 2, 0)]\<rparr>)"
    by code_simp
  show ?thesis
    using h1 h2 h3 run
      unlocated_sample_gets_sentinel [OF h1 h2 h3, where d = "[Fin 5, Fin 7]"]
    by simp
qed

text \<open>
  C10. For every pair \<open>(i, j)\<close> of grid indices, the point sampled has the entry \<open>i\<close> of
  the y-coordinate sequence as its x-coordinate and the entry \<open>j\<close> of the x-coordinate
  sequence as its y-coordinate, and its value is stored at \<open>surface[j][i]\<close>. The points
  handed to the geometry are exactly these, in the order of the two loops.
\<close>

theorem raster_swaps_axes:
  assumes "rasterize g d z n xlim ylim w = (Inr surface, w')" and "i < n" and "j < n"
  shows "sample_value g d (coords_y (get_pixel_coords (TINY_MOVE w) g n xlim ylim) ! i) (coords_x (get_pixel_coords (TINY_MOVE w) g n xlim ylim) ! j) z = Inr (surface ! j ! i)
       \<and> queries w' = queries w @
           concat (map (\<lambda>i. map (\<lambda>j. (coords_y (get_pixel_coords (TINY_MOVE w) g n xlim ylim) ! i, coords_x (get_pixel_coords (TINY_MOVE w) g n xlim ylim) ! j, z)) [0..<n])
                     [0..<n])"
  using rasterize_entries [OF assms(1)] rasterize_queries [OF assms(1)] assms(2,3) by simp

theorem raster_swaps_axes_witness:
  "rasterize demo_geometry [Fin 5, Fin 7] 0 2 None None demo_world
       = (Inr [[Fin 5, Fin (- 1)], [Fin 7, Fin (- 1)]],
          demo_world\<lparr>queries := [(0, 0, 0), (0, 2, 0), (4, 0, 0), (4, 2, 0)]\<rparr>)
   \<and> (0::nat) < 2 \<and> (1::nat) < 2
   \<and> coords_y (get_pixel_coords (TINY_MOVE demo_world) demo_geometry 2 None None) ! 0 = 0 \<and> coords_x (get_pixel_coords (TINY_MOVE demo_world) demo_geometry 2 None None) ! 1 = 2
   \<and> sample_value demo_geometry [Fin 5, Fin 7] 0 2 0
       = Inr ([[Fin 5, Fin (- 1)], [Fin 7, Fin (- 1)]] ! 1 ! 0)"
proof -
  have run: "rasterize demo_geometry [Fin 5, Fin 7] 0 2 None None demo_world
       = (Inr [[Fin 5, Fin (- 1)], [Fin 7, Fin (- 1)]],
          demo_world\<lparr>queries := [(0, 0, 0), (0, 2, 0), (4, 0, 0), (4, 2, 0)]\<rparr>)"
    by code_simp
  have h1: "(0::nat) < 2" and h2: "(1::nat) < 2" by simp_all
  have c: "coords_y (get_pixel_coords (TINY_MOVE demo_world) demo_geometry 2 None None) ! 0 = 0" "coords_x (get_pixel_coords (TINY_MOVE demo_world) demo_geometry 2 None None) ! 1 = 2" by code_simp+
  show ?thesis
    using run h1 h2 c raster_swaps_axes [OF run h1 h2] by simp
qed

section \<open>The colorization stage\<close>

lemma fl_max_not_NaN: "fl_max a b \<noteq> NaN \<longleftrightarrow> a \<noteq> NaN \<and> b \<noteq> NaN"
  by (auto simp: fl_max_def)

lemma fl_max_cases: "fl_max a b = NaN \<or> fl_max a b = a \<or> fl_max a b = b"
  by (simp add: fl_max_def)

lemma fl_less_trans_le:
  "a \<noteq> NaN \<Longrightarrow> c \<noteq> NaN \<Longrightarrow> M \<noteq> NaN \<Longrightarrow> \<not> fl_less M c \<Longrightarrow> \<not> fl_less c a \<Longrightarrow> \<not> fl_less M a"
  by (cases a; cases c; cases M) auto

lemma fl_max_upper:
  "a \<noteq> NaN \<Longrightarrow> b \<noteq> NaN \<Longrightarrow> \<not> fl_less (fl_max a b) a \<and> \<not> fl_less (fl_max a b) b"
  by (cases a; cases b) (auto simp: fl_max_def)

lemma fl_less_total: "a \<noteq> NaN \<Longrightarrow> b \<noteq> NaN \<Longrightarrow> \<not> fl_less a b \<Longrightarrow> \<not> fl_less b a \<Longrightarrow> a = b"
  by (cases a; cases b) auto

lemma fold_max_props:
  "fold (\<lambda>v m. fl_max m v) xs x = M \<Longrightarrow> M \<noteq> NaN \<Longrightarrow>
     x \<noteq> NaN \<and> NaN \<notin> set xs \<and> M \<in> set (x # xs) \<and> (\<forall>v\<in>set (x # xs). \<not> fl_less M v)"
proof (induction xs arbitrary: x)
  case Nil
  then show ?case by (cases x) auto
next
  case (Cons y ys)
  have f: "fold (\<lambda>v m. fl_max m v) ys (fl_max x y) = M" using Cons.prems(1) by simp
  note IH = Cons.IH [OF f Cons.prems(2)]
  then have nn: "x \<noteq> NaN" "y \<noteq> NaN" using fl_max_not_NaN by blast+
  have mem: "M \<in> set (x # y # ys)" using IH fl_max_cases [of x y] by auto
  have ub: "\<not> fl_less M (fl_max x y)" using IH by simp
  have "\<not> fl_less M x" "\<not> fl_less M y"
    using fl_less_trans_le [OF _ _ Cons.prems(2) ub] fl_max_upper [OF nn] nn IH by blast+
  then show ?case using IH nn mem by auto
qed

lemma fold_max_is:
  "x \<noteq> NaN \<Longrightarrow> NaN \<notin> set xs \<Longrightarrow> M \<in> set (x # xs) \<Longrightarrow> \<forall>v\<in>set (x # xs). \<not> fl_less M v \<Longrightarrow>
     fold (\<lambda>v m. fl_max m v) xs x = M"
proof (induction xs arbitrary: x)
  case Nil
  then show ?case by simp
next
  case (Cons y ys)
  have nn: "x \<noteq> NaN" "y \<noteq> NaN" "M \<noteq> NaN" using Cons.prems by auto
  have ux: "\<not> fl_less M x" and uy: "\<not> fl_less M y" using Cons.prems(4) by simp_all
  have m1: "fl_max x y \<noteq> NaN" using nn fl_max_not_NaN by blast
  have m2: "NaN \<notin> set ys" using Cons.prems(2) by simp
  have m3: "M \<in> set (fl_max x y # ys)"
  proof (cases "M \<in> set ys")
    case True then show ?thesis by simp
  next
    case False
    then have "M = x \<or> M = y" using Cons.prems(3) by auto
    then have "fl_max x y = M"
    proof
      assume "M = x"
      then show ?thesis using uy nn by (simp add: fl_max_def)
    next
      assume my: "M = y"
      show ?thesis
      proof (cases "fl_less x y")
        case True then show ?thesis using my nn by (simp add: fl_max_def)
      next
        case False
        then have "x = y" using fl_less_total [OF nn(1,2)] ux my by blast
        then show ?thesis using my nn by (simp add: fl_max_def)
      qed
    qed
    then show ?thesis by simp
  qed
  have m4: "\<forall>v\<in>set (fl_max x y # ys). \<not> fl_less M v"
    using Cons.prems(4) fl_max_cases [of x y] m1 by auto
  show ?case using Cons.IH [OF m1 m2 m3 m4] by simp
qed

lemma np_max_divided:
  assumes "np_max xs = Inr (Fin m)" and "0 < m"
  shows "np_max (map (\<lambda>v. fl_div v (Fin m)) xs) = Inr (Fin 1)"
proof (cases xs)
  case Nil
  then show ?thesis using assms by simp
next
  case (Cons x ys)
  let ?f = "\<lambda>v. fl_div v (Fin m)"
  have "fold (\<lambda>v m. fl_max m v) ys x = Fin m" using assms(1) Cons by simp
  from fold_max_props [OF this] have
    p: "x \<noteq> NaN" "NaN \<notin> set ys" "Fin m \<in> set (x # ys)" "\<forall>v\<in>set (x # ys). \<not> fl_less (Fin m) v"
    by simp_all
  have each: "?f v \<noteq> NaN \<and> \<not> fl_less (Fin 1) (?f v)" if "v \<in> set (x # ys)" for v
  proof -
    have "v \<noteq> NaN" "\<not> fl_less (Fin m) v" using p that by auto
    then show ?thesis using assms(2) by (cases v) (auto simp: field_simps)
  qed
  have one: "?f (Fin m) = Fin 1" using assms(2) by simp
  have a1: "?f x \<noteq> NaN" using each by simp
  have a2: "NaN \<notin> set (map ?f ys)"
  proof
    assume "NaN \<in> set (map ?f ys)"
    then obtain v where "v \<in> set ys" "?f v = NaN" by auto
    then show False using each [of v] by simp
  qed
  have a3: "Fin 1 \<in> set (?f x # map ?f ys)"
  proof -
    have "?f (Fin m) \<in> ?f ` set (x # ys)" using p(3) by blast
    then show ?thesis using one by simp
  qed
  have a4: "\<forall>v\<in>set (?f x # map ?f ys). \<not> fl_less (Fin 1) v" using each by auto
  show ?thesis using fold_max_is [OF a1 a2 a3 a4] Cons by simp
qed

text \<open>
  C6. With \<open>norm=True\<close>, when the maximum of the rasterized field is finite and positive,
  the normalization step succeeds and the maximum of the field after it is exactly 1.
\<close>

theorem normalized_maximum_is_one:
  assumes "np_max (concat surface) = Inr (Fin m)" and "0 < m"
  shows "\<exists>s'. normalize_surface True surface = Inr s' \<and> np_max (concat s') = Inr (Fin 1)"
proof -
  have "concat (map (map (\<lambda>v. fl_div v (Fin m))) surface)
          = map (\<lambda>v. fl_div v (Fin m)) (concat surface)"
    by (simp add: map_concat)
  then show ?thesis using assms np_max_divided [OF assms] by (simp add: normalize_surface_def)
qed

theorem normalized_maximum_is_one_witness:
  "np_max (concat [[Fin 5, Fin (- 1)], [Fin 7, Fin (- 1)]]) = Inr (Fin 7) \<and> (0::real) < 7
   \<and> (\<exists>s'. normalize_surface True [[Fin 5, Fin (- 1)], [Fin 7, Fin (- 1)]] = Inr s'
          \<and> np_max (concat s') = Inr (Fin 1))"
proof -
  have h: "np_max (concat [[Fin 5, Fin (- 1)], [Fin 7, Fin (- 1)]]) = Inr (Fin 7)" by code_simp
  have p: "(0::real) < 7" by simp
  show ?thesis using h p normalized_maximum_is_one [OF h p] by simp
qed

text \<open>
  C2, as claimed: the colorization stage leaves every -1 entry equal to -1, also with
  \<open>norm=True\<close>. The field rasterized from the two-region geometry with the data
  \<open>[5, 7]\<close> has two -1 entries; with \<open>norm=True\<close> the stage divides them by the maximum 7,
  and the figure shows \<open>-1/7\<close> in their place.
\<close>

theorem normalization_rescales_sentinel:
  "fst (rasterize demo_geometry [Fin 5, Fin 7] 0 2 None None demo_world) = Inr [[Fin 5, Fin (- 1)], [Fin 7, Fin (- 1)]]
   \<and> colorize_surface True True [[Fin 5, Fin (- 1)], [Fin 7, Fin (- 1)]]
       = Inr [[Fin (5 / 7), Fin (- (1 / 7))], [Fin 1, Fin (- (1 / 7))]]
   \<and> fst (plot_spatial_data demo_geometry (Ndarray [Fin 5, Fin 7]) True True None (IntV 2)
            None None False (PlainName ''spatial-data'') None None True demo_world)
       = Inr (Some \<lparr>fig_image = [[Fin 1, Fin (- (1 / 7))], [Fin (5 / 7), Fin (- (1 / 7))]],
                     fig_extent = (0, 2, 0, 4), fig_vmin = None, fig_vmax = None,
                     fig_colorbar = False\<rparr>)"
  by code_simp

text \<open>
  C2, amended: with \<open>norm=False\<close> the stage leaves every -1 entry equal to -1, with or
  without \<open>transparent_zeros\<close>; with \<open>norm=True\<close> and a finite nonzero maximum \<open>m\<close> of the
  field, every -1 entry becomes \<open>-1/m\<close>.
\<close>

theorem sentinel_through_colorization:
  assumes "j < length surface" and "i < length (surface ! j)"
    and "surface ! j ! i = Fin (- 1)"
  shows "(\<not> norm_flag \<longrightarrow>
            (\<exists>s'. colorize_surface norm_flag transparent_zeros surface = Inr s'
                  \<and> s' ! j ! i = Fin (- 1)))
       \<and> (norm_flag \<longrightarrow>
            (\<forall>m. np_max (concat surface) = Inr (Fin m) \<longrightarrow> m \<noteq> 0 \<longrightarrow>
               (\<exists>s'. colorize_surface norm_flag transparent_zeros surface = Inr s'
                     \<and> s' ! j ! i = Fin (- 1 / m))))"
proof (intro conjI impI allI)
  assume "\<not> norm_flag"
  then show "\<exists>s'. colorize_surface norm_flag transparent_zeros surface = Inr s'
                  \<and> s' ! j ! i = Fin (- 1)"
    using assms by (simp add: colorize_surface_def normalize_surface_def zeros_to_nan_def)
next
  fix m assume "norm_flag" and "np_max (concat surface) = Inr (Fin m)" and "m \<noteq> 0"
  then show "\<exists>s'. colorize_surface norm_flag transparent_zeros surface = Inr s'
                  \<and> s' ! j ! i = Fin (- 1 / m)"
    using assms by (simp add: colorize_surface_def normalize_surface_def zeros_to_nan_def)
qed

theorem sentinel_through_colorization_witness:
  "(0::nat) < length [[Fin 5, Fin (- 1)], [Fin 7, Fin (- 1)]] \<and> (1::nat) < length ([[Fin 5, Fin (- 1)], [Fin 7, Fin (- 1)]] ! 0) \<and> [[Fin 5, Fin (- 1)], [Fin 7, Fin (- 1)]] ! 0 ! 1 = Fin (- 1)
   \<and> np_max (concat [[Fin 5, Fin (- 1)], [Fin 7, Fin (- 1)]]) = Inr (Fin 7) \<and> (7::real) \<noteq> 0
   \<and> (\<exists>s'. colorize_surface False True [[Fin 5, Fin (- 1)], [Fin 7, Fin (- 1)]] = Inr s' \<and> s' ! 0 ! 1 = Fin (- 1))
   \<and> (\<exists>s'. colorize_surface True True [[Fin 5, Fin (- 1)], [Fin 7, Fin (- 1)]] = Inr s' \<and> s' ! 0 ! 1 = Fin (- 1 / 7))"
proof -
  have h1: "(0::nat) < length [[Fin 5, Fin (- 1)], [Fin 7, Fin (- 1)]]" by simp
  have h2: "(1::nat) < length ([[Fin 5, Fin (- 1)], [Fin 7, Fin (- 1)]] ! 0)" by simp
  have h3: "[[Fin 5, Fin (- 1)], [Fin 7, Fin (- 1)]] ! 0 ! 1 = Fin (- 1)" by simp
  have h4: "np_max (concat [[Fin 5, Fin (- 1)], [Fin 7, Fin (- 1)]]) = Inr (Fin 7)" by code_simp
  show ?thesis
    using h1 h2 h3 h4
      sentinel_through_colorization [OF h1 h2 h3, of False True]
      sentinel_through_colorization [OF h1 h2 h3, of True True]
    by simp
qed

section \<open>Validation\<close>

text \<open>
  C7. When the length of \<open>fsrs_to_data\<close> differs from the geometry's number of regions,
  \<open>plot_spatial_data\<close> ends with an error of its first three checks (at the latest the
  one on the length), and no point has been handed to the geometry: the only effect
  is the creation of the output directory.
\<close>

theorem length_mismatch_fails_before_sampling:
  assumes "int (length (data_values fsrs_to_data)) \<noteq> getNumFSRs g"
  shows "\<exists>e. plot_spatial_data g fsrs_to_data norm_flag transparent_zeros zcoord gridsize
               xlim ylim colorbar filename vmin vmax get_figure w = (Inl e, make_directory w)
           \<and> e \<in> {NotGeometry, NotNdarray,
                  LengthMismatch (int (length (data_values fsrs_to_data))) (getNumFSRs g)}
           \<and> queries (make_directory w) = queries w"
  using assms
  by (simp add: plot_spatial_data_def check_spatial_args_def make_directory_def Let_def)

theorem length_mismatch_fails_before_sampling_witness:
  "int (length (data_values (Ndarray [Fin 5]))) \<noteq> getNumFSRs demo_geometry
   \<and> plot_spatial_data demo_geometry (Ndarray [Fin 5]) False True None (IntV 2) None None
        False (PlainName ''spatial-data'') None None False demo_world
       = (Inl (LengthMismatch 1 2), demo_world\<lparr>dirs := [''out/plots/'']\<rparr>)
   \<and> queries (make_directory demo_world) = []"
proof -
  have h: "int (length (data_values (Ndarray [Fin 5]))) \<noteq> getNumFSRs demo_geometry"
    by (simp add: demo_geometry_def)
  have run: "plot_spatial_data demo_geometry (Ndarray [Fin 5]) False True None (IntV 2) None None
        False (PlainName ''spatial-data'') None None False demo_world
       = (Inl (LengthMismatch 1 2), demo_world\<lparr>dirs := [''out/plots/'']\<rparr>)"
    by code_simp
  have q: "queries demo_world = []" by (simp add: demo_world_def)
  show ?thesis
    using h run q
      length_mismatch_fails_before_sampling [OF h, of False True None "IntV 2" None None False
        "PlainName ''spatial-data''" None None False demo_world]
    by simp
qed

lemma check_bounds_Inr:
  "check_bounds bs = Inr ()
     \<longleftrightarrow> (\<forall>b\<in>set bs. (is_integer b \<or> is_float b) \<and> \<not> num_val b < 0)"
  by (induction bs) auto

lemma check_bounds_Inl:
  "(\<exists>e. check_bounds bs = Inl e)
     \<longleftrightarrow> (\<exists>b\<in>set bs. (\<not> is_integer b \<and> \<not> is_float b) \<or> num_val b < 0)"
  by (induction bs) auto

lemma zip_drop_increasing:
  "list_all (\<lambda>(low, up). num_val low < num_val up) (zip bs (drop 1 bs))
     \<longleftrightarrow> (\<forall>k. Suc k < length bs \<longrightarrow> num_val (bs ! k) < num_val (bs ! Suc k))"
proof -
  have "list_all (\<lambda>(low, up). num_val low < num_val up) (zip bs (drop 1 bs))
     \<longleftrightarrow> (\<forall>k<length bs - 1. num_val (bs ! k) < num_val (bs ! Suc k))"
    by (auto simp: list_all_length)
  also have "\<dots> \<longleftrightarrow> (\<forall>k. Suc k < length bs \<longrightarrow> num_val (bs ! k) < num_val (bs ! Suc k))"
    by (auto simp: less_diff_conv)
  finally show ?thesis .
qed

text \<open>
  C8, as claimed: bounds that are strictly increasing, of the right count and not
  negative pass the validation. The three bounds 0, 1, 2 of a type that is neither an
  integer nor a float (an array of \<open>np.int16\<close>, say) meet the three conditions for two
  energy groups, and the per-bound type test ends the call with an error.
\<close>

theorem bounds_of_other_type_rejected:
  "num_val (OtherV 0) < num_val (OtherV 1) \<and> num_val (OtherV 1) < num_val (OtherV 2)
   \<and> int (length [OtherV 0, OtherV 1, OtherV 2]) = 2 + 1
   \<and> \<not> num_val (OtherV 0) < 0 \<and> \<not> num_val (OtherV 1) < 0 \<and> \<not> num_val (OtherV 2) < 0
   \<and> check_group_bounds 2 (BoundsSeq [OtherV 0, OtherV 1, OtherV 2]) True
       = Inl BoundNotNumber"
  by code_simp

text \<open>
  C8, amended: for group bounds given as a sequence, the validation of
  \<open>plot_energy_fluxes\<close> ends with an error when the bounds are not strictly increasing, or
  their count is not the number of energy groups plus one, or a bound is negative, or
  a bound is neither an integer nor a float; bounds meeting all four conditions pass
  and are kept as they are.
\<close>

theorem group_bounds_validation:
  "(\<not> (\<forall>k. Suc k < length bs \<longrightarrow> num_val (bs ! k) < num_val (bs ! Suc k))
      \<or> int (length bs) \<noteq> num_groups + 1 \<or> (\<exists>b\<in>set bs. num_val b < 0)
      \<or> (\<exists>b\<in>set bs. \<not> is_integer b \<and> \<not> is_float b)
      \<longrightarrow> (\<exists>e. check_group_bounds num_groups (BoundsSeq bs) loglog = Inl e))
   \<and> ((\<forall>k. Suc k < length bs \<longrightarrow> num_val (bs ! k) < num_val (bs ! Suc k))
      \<and> int (length bs) = num_groups + 1 \<and> (\<forall>b\<in>set bs. \<not> num_val b < 0)
      \<and> (\<forall>b\<in>set bs. is_integer b \<or> is_float b)
      \<longrightarrow> check_group_bounds num_groups (BoundsSeq bs) loglog = Inr (bs, loglog))"
proof -
  have "check_bounds bs = Inr () \<or> (\<exists>e. check_bounds bs = Inl e)"
    by (cases "check_bounds bs") auto
  then show ?thesis
    using zip_drop_increasing [of bs] check_bounds_Inr [of bs] check_bounds_Inl [of bs]
    by (auto simp: check_group_bounds_def split: sum.splits)
qed

theorem group_bounds_validation_witness:
  "num_val (IntV 0) < num_val (FloatV (5 / 8))
   \<and> num_val (FloatV (5 / 8)) < num_val (FloatV 20000000)
   \<and> int (length [IntV 0, FloatV (5 / 8), FloatV 20000000]) = 2 + 1
   \<and> \<not> num_val (IntV 0) < 0 \<and> \<not> num_val (FloatV (5 / 8)) < 0
   \<and> \<not> num_val (FloatV 20000000) < 0
   \<and> is_integer (IntV 0) \<and> is_float (FloatV (5 / 8)) \<and> is_float (FloatV 20000000)
   \<and> check_group_bounds 2 (BoundsSeq [IntV 0, FloatV (5 / 8), FloatV 20000000]) True
       = Inr ([IntV 0, FloatV (5 / 8), FloatV 20000000], True)
   \<and> num_val (FloatV (- 1)) < 0
   \<and> check_group_bounds 2 (BoundsSeq [FloatV (- 1), IntV 0, FloatV 3]) True
       = Inl (BoundNegative (- 1))
   \<and> \<not> num_val (IntV 1) < num_val (IntV 1)
   \<and> check_group_bounds 2 (BoundsSeq [IntV 0, IntV 1, IntV 1]) True = Inl BoundsNotMonotonic
   \<and> int (length [IntV 0, IntV 1]) \<noteq> 2 + 1
   \<and> check_group_bounds 2 (BoundsSeq [IntV 0, IntV 1]) True = Inl (BoundsWrongCount 2)
   \<and> \<not> is_integer (OtherV 1) \<and> \<not> is_float (OtherV 1)
   \<and> check_group_bounds 2 (BoundsSeq [IntV 0, OtherV 1, IntV 2]) True = Inl BoundNotNumber"
proof -
  let ?bs = "[IntV 0, FloatV (5 / 8), FloatV 20000000]"
  have h1: "\<forall>k. Suc k < length ?bs \<longrightarrow> num_val (?bs ! k) < num_val (?bs ! Suc k)"
    by (simp add: nth_Cons split: nat.split)
  have h2: "int (length ?bs) = 2 + 1" by simp
  have h3: "\<forall>b\<in>set ?bs. \<not> num_val b < 0" by simp
  have h4: "\<forall>b\<in>set ?bs. is_integer b \<or> is_float b" by simp
  have ok: "check_group_bounds 2 (BoundsSeq ?bs) True = Inr (?bs, True)"
    using h1 h2 h3 h4 group_bounds_validation [of ?bs 2 True] by blast
  have n1: "\<exists>b\<in>set [FloatV (- 1), IntV 0, FloatV 3]. num_val b < 0" by simp
  have e1: "\<exists>e. check_group_bounds 2 (BoundsSeq [FloatV (- 1), IntV 0, FloatV 3]) True = Inl e"
    using n1 group_bounds_validation [of "[FloatV (- 1), IntV 0, FloatV 3]" 2 True] by blast
  have r1: "check_group_bounds 2 (BoundsSeq [FloatV (- 1), IntV 0, FloatV 3]) True
              = Inl (BoundNegative (- 1))"
    by code_simp
  have r2: "check_group_bounds 2 (BoundsSeq [IntV 0, IntV 1, IntV 1]) True = Inl BoundsNotMonotonic"
    by code_simp
  have r3: "check_group_bounds 2 (BoundsSeq [IntV 0, IntV 1]) True = Inl (BoundsWrongCount 2)"
    by code_simp
  have r4: "check_group_bounds 2 (BoundsSeq [IntV 0, OtherV 1, IntV 2]) True = Inl BoundNotNumber"
    by code_simp
  show ?thesis using ok e1 r1 r2 r3 r4 by simp
qed

section \<open>The eigenmode sweep and the subdirectory\<close>

lemma make_directory_subdirectory: "subdirectory (make_directory w) = subdirectory w"
  by (simp add: make_directory_def Let_def)

lemma raster_inner_subdirectory:
  "subdirectory (snd (raster_inner g d cs z i js s w)) = subdirectory w"
proof (induction js arbitrary: s w)
  case Nil
  then show ?case by simp
next
  case (Cons j js)
  show ?case
    by (cases "sample_value g d (coords_y cs ! i) (coords_x cs ! j) z")
       (simp_all add: raster_inner_Cons Cons.IH del: raster_inner.simps)
qed

lemma raster_outer_subdirectory:
  "subdirectory (snd (raster_outer g d cs z n is s w)) = subdirectory w"
proof (induction "is" arbitrary: s w)
  case Nil
  then show ?case by simp
next
  case (Cons i "is")
  obtain r w1 where in1: "raster_inner g d cs z i [0..<n] s w = (r, w1)"
    by (cases "raster_inner g d cs z i [0..<n] s w") auto
  have w1: "subdirectory w1 = subdirectory w"
    using raster_inner_subdirectory [of g d cs z i "[0..<n]" s w] in1 by simp
  show ?case using in1 w1 Cons.IH by (cases r) simp_all
qed

lemma plot_spatial_data_subdirectory:
  "subdirectory (snd (plot_spatial_data g fd nf tz zc gs xlim ylim cb fn vmin vmax gf w))
     = subdirectory w"
proof -
  have r: "subdirectory (snd (rasterize g d z n xlim ylim w1)) = subdirectory w1" for d z n w1
    by (simp add: rasterize_def Let_def raster_outer_subdirectory)
  show ?thesis
  proof (cases "check_spatial_args g fd gs zc")
    case (Inl e)
    then show ?thesis by (simp add: plot_spatial_data_def Let_def make_directory_subdirectory)
  next
    case (Inr t)
    obtain d n z where t: "t = (d, n, z)" by (cases t) auto
    obtain res w2 where rz: "rasterize g d z n xlim ylim (make_directory w) = (res, w2)"
      by (cases "rasterize g d z n xlim ylim (make_directory w)") auto
    have w2: "subdirectory w2 = subdirectory w"
      using r [of d z n "make_directory w"] rz make_directory_subdirectory by simp
    show ?thesis using Inr t rz w2
      by (auto simp: plot_spatial_data_def Let_def split: sum.splits)
  qed
qed

lemma spatial_fluxes_loop_subdirectory:
  "subdirectory (snd (spatial_fluxes_loop g fl zc nf gs xlim ylim ps w)) = subdirectory w"
proof (induction ps arbitrary: w)
  case Nil
  then show ?case by simp
next
  case (Cons p ps)
  obtain index grp where p: "p = (index, grp)" by (cases p) auto
  show ?case
  proof (cases "np_column fl (nat (getNumEnergyGroups g)) (int index)")
    case (Inl e)
    then show ?thesis using p by simp
  next
    case (Inr column)
    let ?P = "plot_spatial_data g (Ndarray column) nf False (Some (FloatV zc)) gs xlim ylim True
                (FsrFluxGroupZ grp zc) None None False w"
    obtain res w1 where P: "?P = (res, w1)" by (cases ?P) auto
    have "subdirectory w1 = subdirectory w"
      using plot_spatial_data_subdirectory [of g "Ndarray column" nf False "Some (FloatV zc)" gs
        xlim ylim True "FsrFluxGroupZ grp zc" None None False w] P by simp
    then show ?thesis using p Inr P Cons.IH by (cases res) simp_all
  qed
qed

lemma plot_spatial_fluxes_subdirectory:
  "subdirectory (snd (plot_spatial_fluxes s egs nf gs xlim ylim w)) = subdirectory w"
  by (simp add: plot_spatial_fluxes_def Let_def spatial_fluxes_loop_subdirectory split: sum.splits)

lemma eigenmode_loop_Inl:
  "eigenmode_loop irs ems nf egs gs xlim ylim ms w = (Inl e, w') \<Longrightarrow>
     subdirectory w' = subdirectory w \<or> (\<exists>mode m. subdirectory w' =
          ''/plots/eig-'' @ zfill (length (str_int m)) (str_int mode) @ ''-flux/'')"
proof (induction ms arbitrary: w)
  case Nil
  then show ?case by simp
next
  case (Cons mode ms)
  show ?case
  proof (cases "np_get (eigenvectors irs) (mode - 1)")
    case (Inl e1)
    then show ?thesis using Cons.prems by simp
  next
    case (Inr ev)
    show ?thesis
    proof (cases "py_max ems")
      case (Inl e2)
      then show ?thesis using Cons.prems Inr by (simp add: Let_def)
    next
      case mx: (Inr m)
      define d where "d = ''/plots/eig-'' @ zfill (length (str_int m)) (str_int mode) @ ''-flux/''"
      define moc where "moc = (moc_solver irs)\<lparr>solver_fluxes := (if mode = 1 then map fl_abs ev else ev)\<rparr>"
      let ?P = "plot_spatial_fluxes moc egs nf gs xlim ylim (w\<lparr>subdirectory := d\<rparr>)"
      obtain res w2 where P: "?P = (res, w2)" by (cases ?P) auto
      have w2: "subdirectory w2 = d"
        using plot_spatial_fluxes_subdirectory [of moc egs nf gs xlim ylim "w\<lparr>subdirectory := d\<rparr>"] P
        by simp
      have din: "\<exists>mode m. d = ''/plots/eig-'' @ zfill (length (str_int m)) (str_int mode) @ ''-flux/''"
        unfolding d_def by blast
      show ?thesis
      proof (cases res)
        case (Inl e3)
        then have "w' = w2" using Cons.prems Inr mx P by (simp add: Let_def d_def moc_def)
        then have "subdirectory w' = d" using w2 by simp
        then show ?thesis using din by blast
      next
        case r: (Inr u)
        then have "eigenmode_loop irs ems nf egs gs xlim ylim ms w2 = (Inl e, w')"
          using Cons.prems Inr mx P by (simp add: Let_def d_def moc_def)
        from Cons.IH [OF this] have "subdirectory w' = d
            \<or> (\<exists>mode m. subdirectory w' =
                  ''/plots/eig-'' @ zfill (length (str_int m)) (str_int mode) @ ''-flux/'')"
          by (simp only: w2)
        then show ?thesis using din by blast
      qed
    qed
  qed
qed

text \<open>
  C5, as claimed: the subdirectory is back at \<open>/plots/\<close> after the sweep even when a
  mode's plot fails. A sweep over the modes 1 and 2 with the grid size 0: the plot of
  mode 1 ends with the error on the grid size, the sweep ends with it, and the
  subdirectory stays \<open>/plots/eig-1-flux/\<close>.
\<close>

theorem failed_sweep_keeps_mode_subdirectory:
  "plot_eigenmode_fluxes demo_iramsolver [1, 2] False [1] (IntV 0) None None demo_world
     = (Inl (GridsizeNegative 0),
        demo_world\<lparr>subdirectory := ''/plots/eig-1-flux/'',
                    dirs := [''out/plots/'', ''out/plots/eig-1-flux/'']\<rparr>)
   \<and> subdirectory (snd (plot_eigenmode_fluxes demo_iramsolver [1, 2] False [1] (IntV 0)
                            None None demo_world)) = ''/plots/eig-1-flux/''"
  by code_simp

text \<open>
  C5, amended: after a sweep that ends without an error the subdirectory is \<open>/plots/\<close>.
  After a sweep that ends with an error the subdirectory is the one the call started
  with, or the directory \<open>/plots/eig-<mode>-flux/\<close> of one of the modes.
\<close>

theorem sweep_subdirectory:
  "(plot_eigenmode_fluxes irs eigenmodes norm_flag energy_groups gridsize xlim ylim w = (Inr u, w')
      \<longrightarrow> subdirectory w' = ''/plots/'')
   \<and> (plot_eigenmode_fluxes irs eigenmodes norm_flag energy_groups gridsize xlim ylim w = (Inl e, w')
      \<longrightarrow> subdirectory w' = subdirectory w
          \<or> (\<exists>mode m. subdirectory w' =
                ''/plots/eig-'' @ zfill (length (str_int m)) (str_int mode) @ ''-flux/''))"
proof (intro conjI impI)
  assume "plot_eigenmode_fluxes irs eigenmodes norm_flag energy_groups gridsize xlim ylim w = (Inr u, w')"
  then show "subdirectory w' = ''/plots/''"
    by (auto simp: plot_eigenmode_fluxes_def Let_def split: if_splits sum.splits prod.splits)
next
  let ?ems = "if eigenmodes = [] then [1..num_modes irs] else eigenmodes"
  assume run: "plot_eigenmode_fluxes irs eigenmodes norm_flag energy_groups gridsize xlim ylim w = (Inl e, w')"
  show "subdirectory w' = subdirectory w
          \<or> (\<exists>mode m. subdirectory w' =
                ''/plots/eig-'' @ zfill (length (str_int m)) (str_int mode) @ ''-flux/'')"
  proof (cases "is_IRAMSolver irs \<and> check_eigenmodes (num_modes irs) ?ems = Inr ()")
    case False
    then have "w' = make_directory w"
      using run by (auto simp: plot_eigenmode_fluxes_def Let_def split: if_splits sum.splits)
    then show ?thesis by (simp add: make_directory_subdirectory)
  next
    case True
    then have "eigenmode_loop irs ?ems norm_flag energy_groups gridsize xlim ylim ?ems
                 (make_directory w) = (Inl e, w')"
      using run by (auto simp: plot_eigenmode_fluxes_def Let_def split: if_splits sum.splits prod.splits)
    from eigenmode_loop_Inl [OF this] show ?thesis by (simp add: make_directory_subdirectory)
  qed
qed

theorem sweep_subdirectory_witness:
  "plot_eigenmode_fluxes demo_iramsolver [] False [1] (IntV 2) None None demo_world
     = (Inr (), demo_world\<lparr>dirs := [''out/plots/'', ''out/plots/eig-1-flux/'', ''out/plots/eig-2-flux/''],
            saved := [(''out/plots/eig-1-flux/'', FsrFluxGroupZ 1 0),
                      (''out/plots/eig-2-flux/'', FsrFluxGroupZ 1 0)],
            queries := [(0, 0, 0), (0, 2, 0), (4, 0, 0), (4, 2, 0),
                        (0, 0, 0), (0, 2, 0), (4, 0, 0), (4, 2, 0)]\<rparr>)
   \<and> subdirectory (demo_world\<lparr>dirs := [''out/plots/'', ''out/plots/eig-1-flux/'', ''out/plots/eig-2-flux/''],
            saved := [(''out/plots/eig-1-flux/'', FsrFluxGroupZ 1 0),
                      (''out/plots/eig-2-flux/'', FsrFluxGroupZ 1 0)],
            queries := [(0, 0, 0), (0, 2, 0), (4, 0, 0), (4, 2, 0),
                        (0, 0, 0), (0, 2, 0), (4, 0, 0), (4, 2, 0)]\<rparr>) = ''/plots/''
   \<and> subdirectory (snd (plot_eigenmode_fluxes demo_iramsolver [1, 2] False [1] (IntV 0)
                            None None demo_world))
       = ''/plots/eig-'' @ zfill (length (str_int 2)) (str_int 1) @ ''-flux/''"
proof -
  have run: "plot_eigenmode_fluxes demo_iramsolver [] False [1] (IntV 2) None None demo_world
     = (Inr (), demo_world\<lparr>dirs := [''out/plots/'', ''out/plots/eig-1-flux/'', ''out/plots/eig-2-flux/''],
            saved := [(''out/plots/eig-1-flux/'', FsrFluxGroupZ 1 0),
                      (''out/plots/eig-2-flux/'', FsrFluxGroupZ 1 0)],
            queries := [(0, 0, 0), (0, 2, 0), (4, 0, 0), (4, 2, 0),
                        (0, 0, 0), (0, 2, 0), (4, 0, 0), (4, 2, 0)]\<rparr>)"
    by code_simp
  have reset: "subdirectory (demo_world\<lparr>dirs := [''out/plots/'', ''out/plots/eig-1-flux/'', ''out/plots/eig-2-flux/''],
            saved := [(''out/plots/eig-1-flux/'', FsrFluxGroupZ 1 0),
                      (''out/plots/eig-2-flux/'', FsrFluxGroupZ 1 0)],
            queries := [(0, 0, 0), (0, 2, 0), (4, 0, 0), (4, 2, 0),
                        (0, 0, 0), (0, 2, 0), (4, 0, 0), (4, 2, 0)]\<rparr>) = ''/plots/''"
    using run sweep_subdirectory [of demo_iramsolver "[]" False "[1]" "IntV 2" None None
      demo_world "()" "demo_world\<lparr>dirs := [''out/plots/'', ''out/plots/eig-1-flux/'', ''out/plots/eig-2-flux/''],
            saved := [(''out/plots/eig-1-flux/'', FsrFluxGroupZ 1 0),
                      (''out/plots/eig-2-flux/'', FsrFluxGroupZ 1 0)],
            queries := [(0, 0, 0), (0, 2, 0), (4, 0, 0), (4, 2, 0),
                        (0, 0, 0), (0, 2, 0), (4, 0, 0), (4, 2, 0)]\<rparr>"] by blast
  have bad: "subdirectory (snd (plot_eigenmode_fluxes demo_iramsolver [1, 2] False [1] (IntV 0)
                            None None demo_world))
       = ''/plots/eig-'' @ zfill (length (str_int 2)) (str_int 1) @ ''-flux/''"
    by code_simp
  show ?thesis using run reset bad by simp
qed

section \<open>plot_materials\<close>

lemma filter_index_unique:
  assumes "distinct ids" and "v \<in> set ids"
  shows "\<exists>k<length ids. ids ! k = v \<and> filter (\<lambda>k. ids ! k = v) [0..<length ids] = [k]"
proof -
  from assms(2) obtain k where k: "k < length ids" "ids ! k = v"
    by (auto simp: in_set_conv_nth)
  let ?F = "filter (\<lambda>k. ids ! k = v) [0..<length ids]"
  have st: "set ?F = {k}"
  proof (rule set_eqI)
    fix a
    show "a \<in> set ?F \<longleftrightarrow> a \<in> {k}"
      using k assms(1) by (auto simp: nth_eq_iff_index_eq)
  qed
  have d: "distinct ?F" by simp
  have "card (set ?F) = length ?F" using d by (rule distinct_card)
  then have "length ?F = 1" using st by simp
  then obtain x where x: "?F = [x]" by (cases ?F) auto
  then have "x = k" using st by auto
  then show ?thesis using k x by blast
qed

lemma relabel_result:
  assumes "distinct ids" and "distinct is"
    and "\<forall>i\<in>set is. i < length arr \<and> arr ! i \<in> set ids"
  shows "\<exists>arr'. relabel ids arr is = Inr arr' \<and> length arr' = length arr
           \<and> (\<forall>i\<in>set is. 0 \<le> arr' ! i \<and> arr' ! i < int (length ids)
                  \<and> ids ! nat (arr' ! i) = arr ! i)
           \<and> (\<forall>i. i \<notin> set is \<longrightarrow> arr' ! i = arr ! i)"
  using assms(2,3)
proof (induction "is" arbitrary: arr)
  case Nil
  then show ?case by simp
next
  case (Cons i "is")
  have il: "i < length arr" and iv: "arr ! i \<in> set ids" using Cons.prems(2) by simp_all
  from filter_index_unique [OF assms(1) iv] obtain k where
    k: "k < length ids" "ids ! k = arr ! i"
       "filter (\<lambda>k. ids ! k = arr ! i) [0..<length ids] = [k]" by blast
  define arr1 where "arr1 = arr[i := int k]"
  have step: "relabel ids arr (i # is) = relabel ids arr1 is"
    using k(3) by (simp add: arr1_def)
  have ni: "i \<notin> set is" and di: "distinct is" using Cons.prems(1) by simp_all
  have same: "arr1 ! a = arr ! a" if "a \<noteq> i" for a using that by (simp add: arr1_def)
  have pre: "\<forall>a\<in>set is. a < length arr1 \<and> arr1 ! a \<in> set ids"
  proof
    fix a assume a: "a \<in> set is"
    then have "a \<noteq> i" using ni by auto
    then show "a < length arr1 \<and> arr1 ! a \<in> set ids"
      using Cons.prems(2) a same by (simp add: arr1_def)
  qed
  from Cons.IH [OF di pre] obtain arr' where
    r: "relabel ids arr1 is = Inr arr'" "length arr' = length arr1"
       "\<forall>a\<in>set is. 0 \<le> arr' ! a \<and> arr' ! a < int (length ids) \<and> ids ! nat (arr' ! a) = arr1 ! a"
       "\<forall>a. a \<notin> set is \<longrightarrow> arr' ! a = arr1 ! a" by blast
  have ati: "arr' ! i = int k" using r(4) ni il by (simp add: arr1_def)
  have c: "\<forall>a\<in>set (i # is). 0 \<le> arr' ! a \<and> arr' ! a < int (length ids)
                  \<and> ids ! nat (arr' ! a) = arr ! a"
  proof
    fix a assume a: "a \<in> set (i # is)"
    show "0 \<le> arr' ! a \<and> arr' ! a < int (length ids) \<and> ids ! nat (arr' ! a) = arr ! a"
    proof (cases "a = i")
      case True
      then show ?thesis using ati k by simp
    next
      case False
      then have "a \<in> set is" using a by simp
      then show ?thesis using r(3) same [OF False] by simp
    qed
  qed
  have d: "\<forall>a. a \<notin> set (i # is) \<longrightarrow> arr' ! a = arr ! a"
    using r(4) same by auto
  show ?case using step r(1,2) c d by (simp add: arr1_def)
qed

text \<open>
  C9. NumPy's shuffle returns a rearrangement of the list it is given, the keys of the
  material map are distinct, and the material of every region is one of them. Then
  \<open>plot_materials\<close> computes, for every region, the position of the region's material id
  in the list of all material ids shuffled under seed 1, a number in
  \<open>[0, num_materials)\<close>; for a Geometry whose z-coordinate check passes it hands that
  array to \<open>plot_spatial_data\<close>, and for an input that is no Geometry it reports an error.
\<close>

theorem plot_materials_colors:
  assumes perm: "\<forall>r xs. mset (fst (rng_shuffle ops r xs)) = mset xs"
    and dist: "distinct (getAllMaterials g)"
    and known: "\<forall>f. 0 \<le> f \<and> f < getNumFSRs g \<longrightarrow> fsr_material g f \<in> set (getAllMaterials g)"
  shows "\<exists>colors.
           material_colors ops g
             = (Inr colors, snd (rng_shuffle ops (rng_seed ops 1) (getAllMaterials g)))
         \<and> length colors = nat (getNumFSRs g)
         \<and> (\<forall>f<nat (getNumFSRs g).
               0 \<le> colors ! f \<and> colors ! f < int (length (getAllMaterials g))
               \<and> fst (rng_shuffle ops (rng_seed ops 1) (getAllMaterials g)) ! nat (colors ! f)
                   = fsr_material g (int f))
         \<and> (is_Geometry g \<and> check_zcoord g (case zcoord of None \<Rightarrow> FloatV 0 | Some z \<Rightarrow> z) = Inr ()
              \<longrightarrow> plot_materials ops g gridsize xlim ylim zcoord w
                    = discard (plot_spatial_data g
                        (Ndarray (map (\<lambda>k. Fin (real_of_int k)) colors)) False False
                        (Some (case zcoord of None \<Rightarrow> FloatV 0 | Some z \<Rightarrow> z)) gridsize xlim ylim False
                        (MaterialsZ (num_val (case zcoord of None \<Rightarrow> FloatV 0 | Some z \<Rightarrow> z)))
                        (Some 0) (Some (real (length (getAllMaterials g)))) False
                        (w\<lparr>rng_state := snd (rng_shuffle ops (rng_seed ops 1) (getAllMaterials g))\<rparr>)))
         \<and> (\<not> is_Geometry g
              \<longrightarrow> plot_materials ops g gridsize xlim ylim zcoord w = (Inl NotGeometry, w))"
proof -
  let ?p = "rng_shuffle ops (rng_seed ops 1) (getAllMaterials g)"
  let ?ids = "fst ?p"
  let ?arr = "map (fsr_material g) (arange (getNumFSRs g))"
  have ms: "mset ?ids = mset (getAllMaterials g)" using perm by blast
  have d1: "distinct ?ids" using ms dist by (metis mset_eq_imp_distinct_iff)
  have s1: "set ?ids = set (getAllMaterials g)" using ms by (metis mset_eq_setD)
  have l1: "length ?ids = length (getAllMaterials g)" using ms by (metis size_mset)
  have la: "length ?arr = nat (getNumFSRs g)" by (simp add: arange_def)
  have at: "?arr ! f = fsr_material g (int f)" if "f < nat (getNumFSRs g)" for f
    using that by (simp add: arange_def)
  have pre: "\<forall>i\<in>set [0..<length ?arr]. i < length ?arr \<and> ?arr ! i \<in> set ?ids"
  proof
    fix i assume "i \<in> set [0..<length ?arr]"
    then have i: "i < nat (getNumFSRs g)" using la by simp
    then have "fsr_material g (int i) \<in> set (getAllMaterials g)" using known by auto
    then show "i < length ?arr \<and> ?arr ! i \<in> set ?ids" using i la at s1 by simp
  qed
  from relabel_result [OF d1 _ pre] obtain colors where
    c: "relabel ?ids ?arr [0..<length ?arr] = Inr colors" "length colors = length ?arr"
       "\<forall>i\<in>set [0..<length ?arr]. 0 \<le> colors ! i \<and> colors ! i < int (length ?ids)
            \<and> ?ids ! nat (colors ! i) = ?arr ! i"
    by auto
  have mc: "material_colors ops g = (Inr colors, snd ?p)"
    using c(1) by (simp add: material_colors_def Let_def split_beta)
  have idx: "\<forall>f<nat (getNumFSRs g).
               0 \<le> colors ! f \<and> colors ! f < int (length (getAllMaterials g))
               \<and> ?ids ! nat (colors ! f) = fsr_material g (int f)"
    using c(3) la l1 at by simp
  have pm: "is_Geometry g \<and> check_zcoord g (case zcoord of None \<Rightarrow> FloatV 0 | Some z \<Rightarrow> z) = Inr ()
              \<longrightarrow> plot_materials ops g gridsize xlim ylim zcoord w
                    = discard (plot_spatial_data g
                        (Ndarray (map (\<lambda>k. Fin (real_of_int k)) colors)) False False
                        (Some (case zcoord of None \<Rightarrow> FloatV 0 | Some z \<Rightarrow> z)) gridsize xlim ylim False
                        (MaterialsZ (num_val (case zcoord of None \<Rightarrow> FloatV 0 | Some z \<Rightarrow> z)))
                        (Some 0) (Some (real (length (getAllMaterials g)))) False
                        (w\<lparr>rng_state := snd ?p\<rparr>))"
    using mc by (simp add: plot_materials_def Let_def)
  have ng: "\<not> is_Geometry g
              \<longrightarrow> plot_materials ops g gridsize xlim ylim zcoord w = (Inl NotGeometry, w)"
    by (simp add: plot_materials_def)
  show ?thesis using mc c(2) la idx pm ng by auto
qed

theorem plot_materials_colors_witness:
  "(\<forall>r xs. mset (fst (rng_shuffle demo_rng r xs)) = mset xs)
   \<and> distinct (getAllMaterials demo_geometry)
   \<and> fsr_material demo_geometry 0 = 10 \<and> fsr_material demo_geometry 1 = 20
   \<and> getAllMaterials demo_geometry = [10, 20] \<and> getNumFSRs demo_geometry = 2
   \<and> fst (rng_shuffle demo_rng (rng_seed demo_rng 1) (getAllMaterials demo_geometry)) = [20, 10]
   \<and> material_colors demo_rng demo_geometry = (Inr [1, 0], 2)
   \<and> (\<exists>colors. material_colors demo_rng demo_geometry = (Inr colors, 2)
          \<and> length colors = nat 2
          \<and> plot_materials demo_rng demo_geometry (IntV 2) None None None demo_world
              = discard (plot_spatial_data demo_geometry
                  (Ndarray (map (\<lambda>k. Fin (real_of_int k)) colors)) False False
                  (Some (FloatV 0)) (IntV 2) None None False (MaterialsZ 0)
                  (Some 0) (Some 2) False (demo_world\<lparr>rng_state := 2\<rparr>)))"
proof -
  have h1: "\<forall>r xs. mset (fst (rng_shuffle demo_rng r xs)) = mset xs"
    by (simp add: demo_rng_def mset_rotate_eq)
  have h2: "distinct (getAllMaterials demo_geometry)" by (simp add: demo_geometry_def)
  have h3: "\<forall>f. 0 \<le> f \<and> f < getNumFSRs demo_geometry
              \<longrightarrow> fsr_material demo_geometry f \<in> set (getAllMaterials demo_geometry)"
    by (simp add: demo_geometry_def)
  have g: "is_Geometry demo_geometry" by (simp add: demo_geometry_def)
  have z: "check_zcoord demo_geometry (case None of None \<Rightarrow> FloatV 0 | Some z \<Rightarrow> z) = Inr ()"
    by (simp add: check_zcoord_def demo_geometry_def)
  have facts: "fsr_material demo_geometry 0 = 10" "fsr_material demo_geometry 1 = 20"
    "getAllMaterials demo_geometry = [10, 20]" "getNumFSRs demo_geometry = 2"
    by (simp_all add: demo_geometry_def)
  have sh: "fst (rng_shuffle demo_rng (rng_seed demo_rng 1) (getAllMaterials demo_geometry)) = [20, 10]"
    by code_simp
  have r: "snd (rng_shuffle demo_rng (rng_seed demo_rng 1) (getAllMaterials demo_geometry)) = 2"
    by code_simp
  have mc: "material_colors demo_rng demo_geometry = (Inr [1, 0], 2)" by code_simp
  from plot_materials_colors [OF h1 h2 h3, of None "IntV 2" None None demo_world]
  obtain colors where
    c: "material_colors demo_rng demo_geometry
          = (Inr colors, snd (rng_shuffle demo_rng (rng_seed demo_rng 1) (getAllMaterials demo_geometry)))"
       "length colors = nat (getNumFSRs demo_geometry)"
       "is_Geometry demo_geometry
          \<and> check_zcoord demo_geometry (case None of None \<Rightarrow> FloatV 0 | Some z \<Rightarrow> z) = Inr ()
        \<longrightarrow> plot_materials demo_rng demo_geometry (IntV 2) None None None demo_world
              = discard (plot_spatial_data demo_geometry
                  (Ndarray (map (\<lambda>k. Fin (real_of_int k)) colors)) False False
                  (Some (case None of None \<Rightarrow> FloatV 0 | Some z \<Rightarrow> z)) (IntV 2) None None False
                  (MaterialsZ (num_val (case None of None \<Rightarrow> FloatV 0 | Some z \<Rightarrow> z)))
                  (Some 0) (Some (real (length (getAllMaterials demo_geometry)))) False
                  (demo_world\<lparr>rng_state :=
                     snd (rng_shuffle demo_rng (rng_seed demo_rng 1) (getAllMaterials demo_geometry))\<rparr>))"
    by blast
  have ex: "\<exists>colors. material_colors demo_rng demo_geometry = (Inr colors, 2)
          \<and> length colors = nat 2
          \<and> plot_materials demo_rng demo_geometry (IntV 2) None None None demo_world
              = discard (plot_spatial_data demo_geometry
                  (Ndarray (map (\<lambda>k. Fin (real_of_int k)) colors)) False False
                  (Some (FloatV 0)) (IntV 2) None None False (MaterialsZ 0)
                  (Some 0) (Some 2) False (demo_world\<lparr>rng_state := 2\<rparr>))"
    using c g z r facts by auto
  show ?thesis using h1 h2 facts sh mc ex by simp
qed

end
